theory Spec2Isabelle
  imports Main "HOL-Library.Sublist"
begin

section \<open>The provider-neutral request (Bedrock Converse shapes)\<close>

text \<open>
  The request handed to \<^verbatim>\<open>converse\<close> is the AWS SDK's \<^verbatim>\<open>ConverseCommandInput\<close>.
  Its block types are tagged unions with exactly one member set, so each is a datatype
  here; optional properties are \<open>option\<close>s. Strings are byte strings; token counts and
  budgets are JavaScript numbers holding integers and are \<open>int\<close>.
\<close>

datatype role = User | Assistant

datatype tool_result_content =
    ResultText string
  | ResultImage "string option" "string option"
  | ResultOther

text \<open>
  \<open>Image format bytes\<close>: the two properties the converters read from \<^verbatim>\<open>c.image\<close>.
  \<open>ToolUse toolUseId name input\<close>, \<open>ToolResult toolUseId content status\<close>,
  \<open>ReasoningContent t\<close> with \<open>t\<close> the \<^verbatim>\<open>reasoningText.text\<close> (absent for redacted
  reasoning), \<open>CachePoint type\<close>.
\<close>

datatype content_block =
    Text string
  | Image "string option" "string option"
  | ToolUse "string option" "string option" "string option"
  | ToolResult "string option" "tool_result_content list option" "string option"
  | ReasoningContent "string option"
  | CachePoint string

record message =
  role :: role
  content :: "content_block list option"

datatype system_block = SysText string | SysCachePoint string | SysGuardContent

text \<open>
  A tool specification; \<open>ts_inputSchema_json\<close> is \<^verbatim>\<open>inputSchema.json\<close> when present, as its
  \<^verbatim>\<open>type\<close> property and the schema document.
\<close>

record tool_spec =
  ts_name :: "string option"
  ts_description :: "string option"
  ts_inputSchema_json :: "(string option \<times> string) option"

datatype tool = ToolSpec tool_spec | ToolCachePoint string

datatype tool_choice_kind = Auto | Any | Tool

datatype tool_choice = ChoiceAuto | ChoiceAny | ChoiceTool string

record tool_config =
  tools :: "tool list option"
  toolChoice :: "tool_choice option"

record inference_config =
  maxTokens :: "int option"
  temperature :: "string option"
  topP :: "string option"

record reasoning_fields =
  budget_tokens :: int
  anthropic_beta :: "string list option"

record converse_input =
  messages :: "message list option"
  system :: "system_block list option"
  toolConfig :: "tool_config option"
  inferenceConfig :: "inference_config option"
  additionalModelRequestFields :: "reasoning_fields option"

datatype cache_layer = CacheSystem | CacheTool | CacheMessage

text \<open>
  One entry of \<^verbatim>\<open>modelConfigs\<close> (the table itself lives in the schema package and is a
  parameter of every function below).
\<close>

record model_config =
  modelId :: string
  maxOutputTokens :: int
  reasoningSupport :: bool
  interleavedThinkingSupport :: bool
  toolChoiceSupport :: "tool_choice_kind list"
  cacheSupport :: "cache_layer list"

datatype stop_reason = EndTurn | ToolUseStop | MaxTokensStop | StopSequence

record token_usage =
  inputTokens :: "int option"
  outputTokens :: "int option"
  cacheReadInputTokens :: "int option"
  cacheWriteInputTokens :: "int option"

record converse_response =
  output_message :: "message option"
  stopReason :: "stop_reason option"
  usage :: "token_usage option"

section \<open>Account rotation in \<^verbatim>\<open>bedrockConverse\<close>\<close>

text \<open>
  \<^verbatim>\<open>(process.env.BEDROCK_AWS_ACCOUNTS ?? '').split(',')\<close>: JavaScript's split on a
  one-character separator. It never returns the empty array.
\<close>

fun split_comma :: "string \<Rightarrow> string list" where
  "split_comma [] = [[]]"
| "split_comma (c # cs) =
     (if c = CHR '','' then [] # split_comma cs
      else (case split_comma cs of
              [] \<Rightarrow> [[c]]
            | w # ws \<Rightarrow> (c # w) # ws))"

definition awsAccounts :: "string option \<Rightarrow> string list" where
  "awsAccounts env = split_comma (case env of None \<Rightarrow> [] | Some s \<Rightarrow> s)"

text \<open>
  What the body of the \<^verbatim>\<open>try\<close> block does, seen from the \<^verbatim>\<open>catch\<close>: the provider
  answers, or a \<^verbatim>\<open>ThrottlingException\<close> is thrown, or something else is thrown.
\<close>

datatype provider_outcome =
    Responded converse_response
  | Throttled
  | Failed string

datatype converse_error =
    MaxTokensExceededTooManyTimes nat
  | ThrottlingException
  | OtherError string

text \<open>
  \<^verbatim>\<open>bedrockConverse\<close> with the module variable \<^verbatim>\<open>currentAccountIndex\<close> passed in and
  returned. The guard on \<^verbatim>\<open>maxTokensExceededCount\<close> is outside the \<^verbatim>\<open>try\<close>; the
  provider is only reached behind it.
\<close>

definition bedrockConverse ::
  "string list \<Rightarrow> nat \<Rightarrow> nat \<Rightarrow> provider_outcome \<Rightarrow> nat \<times> (converse_error + converse_response)" where
  "bedrockConverse accounts currentAccountIndex maxTokensExceededCount outcome =
     (if maxTokensExceededCount > 5
      then (currentAccountIndex, Inl (MaxTokensExceededTooManyTimes maxTokensExceededCount))
      else (case outcome of
              Responded response \<Rightarrow> (currentAccountIndex, Inr response)
            | Throttled \<Rightarrow>
                ((currentAccountIndex + 1) mod length accounts, Inl ThrottlingException)
            | Failed msg \<Rightarrow> (currentAccountIndex, Inl (OtherError msg))))"

section \<open>Model names on the Anthropic path\<close>

definition starts_with :: "string \<Rightarrow> string \<Rightarrow> bool" where
  "starts_with p s = (take (length p) s = p)"

text \<open>
  \<^verbatim>\<open>modelId.replace(/^(global|us|eu|apac|jp|au)\./, '')\<close>: the alternatives are tried
  in the order written, at position 0 only, and the first match is removed.
\<close>

definition strip_cri_prefix :: "string \<Rightarrow> string" where
  "strip_cri_prefix s =
     (if starts_with ''global.'' s then drop 7 s
      else if starts_with ''us.'' s then drop 3 s
      else if starts_with ''eu.'' s then drop 3 s
      else if starts_with ''apac.'' s then drop 5 s
      else if starts_with ''jp.'' s then drop 3 s
      else if starts_with ''au.'' s then drop 3 s
      else s)"

definition modelMapping :: "(string \<times> string) list" where
  "modelMapping =
     [(''anthropic.claude-sonnet-4-5-20250929-v1:0'', ''claude-sonnet-4.5-20250929''),
      (''anthropic.claude-opus-4-5-20251101-v1:0'', ''claude-opus-4.5-20251101''),
      (''anthropic.claude-haiku-4-5-20250929-v1:0'', ''claude-haiku-4.5-20250929''),
      (''anthropic.claude-3-7-sonnet-20250219-v1:0'', ''claude-3-7-sonnet-20250219''),
      (''anthropic.claude-3-5-sonnet-20241022-v2:0'', ''claude-3-5-sonnet-20241022''),
      (''anthropic.claude-3-5-haiku-20241022-v1:0'', ''claude-3-5-haiku-20241022''),
      (''anthropic.claude-4-opus-20250514-v1:0'', ''claude-4-opus-20250514''),
      (''anthropic.claude-4-1-opus-20250514-v1:0'', ''claude-4-1-opus-20250514''),
      (''anthropic.claude-4-sonnet-20250514-v1:0'', ''claude-4-sonnet-20250514'')]"

text \<open>
  \<^verbatim>\<open>modelTypeToAnthropicModel\<close>, given the model's entry of \<^verbatim>\<open>modelConfigs\<close>. A value
  of the table is a non-empty string, so \<^verbatim>\<open>!anthropicModel\<close> is true exactly for a
  missing key. The function has no \<^verbatim>\<open>throw\<close>; its result is a plain string.
\<close>

definition modelTypeToAnthropicModel :: "model_config \<Rightarrow> string" where
  "modelTypeToAnthropicModel modelConfig =
     (let baseModelId = strip_cri_prefix (modelId modelConfig) in
      case map_of modelMapping baseModelId of
        None \<Rightarrow> ''claude-sonnet-4.5-20250929''
      | Some anthropicModel \<Rightarrow> anthropicModel)"

section \<open>Session titles\<close>

text \<open>
  \<^verbatim>\<open>String.prototype.trim\<close> on a byte string: tab, line feed, vertical tab, form feed,
  carriage return and space are removed from both ends.
\<close>

definition is_whitespace :: "char \<Rightarrow> bool" where
  "is_whitespace c = (c \<in> set [CHR 0x09, CHR 0x0A, CHR 0x0B, CHR 0x0C, CHR 0x0D, CHR '' ''])"

definition trim :: "string \<Rightarrow> string" where
  "trim s = rev (dropWhile is_whitespace (rev (dropWhile is_whitespace s)))"

fun text_of :: "content_block \<Rightarrow> string option" where
  "text_of (Text t) = Some t"
| "text_of _ = None"

text \<open>
  \<^verbatim>\<open>generateSessionTitle\<close>, given what the call to \<^verbatim>\<open>converse\<close> (model haiku3.5,
  maxTokens 50, the fixed prompt) came back with. Anything thrown inside the \<^verbatim>\<open>try\<close>
  gives the empty title; so does reading \<^verbatim>\<open>.text\<close> of \<^verbatim>\<open>content[0]\<close> when the content
  array is empty, which throws a TypeError. The result is \<^verbatim>\<open>output.trim()\<close> and nothing
  else is done to it.
\<close>

definition generateSessionTitle :: "converse_error + converse_response \<Rightarrow> string" where
  "generateSessionTitle answer =
     (case answer of
        Inl error \<Rightarrow> []
      | Inr response \<Rightarrow>
          (case output_message response of
             None \<Rightarrow> trim []
           | Some m \<Rightarrow>
               (case content m of
                  None \<Rightarrow> trim []
                | Some [] \<Rightarrow> []
                | Some (c # cs) \<Rightarrow> trim (case text_of c of None \<Rightarrow> [] | Some t \<Rightarrow> t))))"

section \<open>Session store: \<^verbatim>\<open>updateSession\<close>\<close>

text \<open>
  The table is DynamoDB's: items are attribute maps under the key (PK, SK). The update
  command carries the SET clauses of its update expression as pairs of placeholders
  (\<^verbatim>\<open>#name = :value\<close>), in the order they were pushed, and the two placeholder maps.
\<close>

datatype attr_value = AttrS string | AttrN int | AttrB bool

type_synonym ddb_item = "string \<Rightarrow> attr_value option"

type_synonym ddb_table = "string \<times> string \<Rightarrow> ddb_item option"

record update_command =
  uc_Key :: "string \<times> string"
  uc_UpdateExpression :: "(string \<times> string) list"
  uc_ExpressionAttributeNames :: "string \<Rightarrow> string option"
  uc_ExpressionAttributeValues :: "string \<Rightarrow> attr_value option"

datatype ddb_error = ValidationException

definition resolve_clause :: "update_command \<Rightarrow> string \<times> string \<Rightarrow> (string \<times> attr_value) option" where
  "resolve_clause cmd clause =
     (case uc_ExpressionAttributeNames cmd (fst clause) of
        None \<Rightarrow> None
      | Some name \<Rightarrow>
          (case uc_ExpressionAttributeValues cmd (snd clause) of
             None \<Rightarrow> None
           | Some v \<Rightarrow> Some (name, v)))"

definition key_item :: "string \<times> string \<Rightarrow> ddb_item" where
  "key_item key = [''PK'' \<mapsto> AttrS (fst key), ''SK'' \<mapsto> AttrS (snd key)]"

definition item_at :: "ddb_table \<Rightarrow> string \<times> string \<Rightarrow> ddb_item" where
  "item_at table key = (case table key of None \<Rightarrow> key_item key | Some item \<Rightarrow> item)"

text \<open>
  The service's UpdateItem with a SET expression, as DynamoDB documents it: an undefined
  placeholder, two clauses for the same attribute (overlapping document paths) and an
  assignment to a key attribute are each rejected with a ValidationException, and a
  rejected update changes nothing; otherwise the clauses are applied to the item under
  the key, which is created with its key attributes when it is missing.
\<close>

definition ddb_update :: "ddb_table \<Rightarrow> update_command \<Rightarrow> ddb_error + ddb_table" where
  "ddb_update table cmd =
     (case those (map (resolve_clause cmd) (uc_UpdateExpression cmd)) of
        None \<Rightarrow> Inl ValidationException
      | Some sets \<Rightarrow>
          if \<not> distinct (map fst sets) \<or> ''PK'' \<in> set (map fst sets) \<or> ''SK'' \<in> set (map fst sets)
          then Inl ValidationException
          else Inr (table (uc_Key cmd \<mapsto>
                 fold (\<lambda>nv item. item (fst nv \<mapsto> snd nv)) sets (item_at table (uc_Key cmd)))))"

text \<open>
  One round of the \<^verbatim>\<open>Object.keys(params).forEach\<close> loop. \<open>params\<close> is the object as the
  list of its own keys in order, a key passed as \<^verbatim>\<open>undefined\<close> carrying \<open>None\<close>.
\<close>

definition add_param :: "string \<times> attr_value option \<Rightarrow> update_command \<Rightarrow> update_command" where
  "add_param p cmd =
     (case snd p of
        None \<Rightarrow> cmd
      | Some v \<Rightarrow>
          cmd \<lparr>uc_UpdateExpression := uc_UpdateExpression cmd @ [(CHR ''#'' # fst p, CHR '':'' # fst p)],
               uc_ExpressionAttributeNames := (uc_ExpressionAttributeNames cmd) (CHR ''#'' # fst p \<mapsto> fst p),
               uc_ExpressionAttributeValues := (uc_ExpressionAttributeValues cmd) (CHR '':'' # fst p \<mapsto> v)\<rparr>)"

text \<open>\<^verbatim>\<open>updateSession\<close>; \<open>now\<close> is what \<^verbatim>\<open>Date.now()\<close> returned.\<close>

definition updateSession ::
  "ddb_table \<Rightarrow> int \<Rightarrow> string \<Rightarrow> (string \<times> attr_value option) list \<Rightarrow> ddb_error + ddb_table" where
  "updateSession table now workerId params =
     ddb_update table
       (fold add_param params
          \<lparr>uc_Key = (''sessions'', workerId),
           uc_UpdateExpression = [(''#updatedAt'', '':updatedAt'')],
           uc_ExpressionAttributeNames = [''#updatedAt'' \<mapsto> ''updatedAt''],
           uc_ExpressionAttributeValues = ['':updatedAt'' \<mapsto> AttrN now]\<rparr>)"

text \<open>The entries of \<open>params\<close> whose value is defined, in order.\<close>

definition defined_params :: "(string \<times> attr_value option) list \<Rightarrow> (string \<times> attr_value) list" where
  "defined_params ps = concat (map (\<lambda>p. case snd p of None \<Rightarrow> [] | Some v \<Rightarrow> [(fst p, v)]) ps)"

text \<open>The command \<^verbatim>\<open>updateSession\<close> sends.\<close>

definition session_command :: "int \<Rightarrow> string \<Rightarrow> (string \<times> attr_value option) list \<Rightarrow> update_command" where
  "session_command now w ps = fold add_param ps
          \<lparr>uc_Key = (''sessions'', w),
           uc_UpdateExpression = [(''#updatedAt'', '':updatedAt'')],
           uc_ExpressionAttributeNames = [''#updatedAt'' \<mapsto> ''updatedAt''],
           uc_ExpressionAttributeValues = ['':updatedAt'' \<mapsto> AttrN now]\<rparr>"

section \<open>Input normalisation on the Bedrock path: \<^verbatim>\<open>preProcessInput\<close>\<close>

text \<open>\<^verbatim>\<open>Array.prototype.at\<close>: a negative index counts from the end; out of range is undefined.\<close>

definition at :: "'a list \<Rightarrow> int \<Rightarrow> 'a option" where
  "at xs i =
     (let k = (if i < 0 then int (length xs) + i else i)
      in if 0 \<le> k \<and> k < int (length xs) then Some (xs ! nat k) else None)"

text \<open>\<^verbatim>\<open>Array.prototype.pop\<close> read for its result only.\<close>

definition pop :: "'a list \<Rightarrow> 'a option" where
  "pop xs = (if xs = [] then None else Some (last xs))"

text \<open>Which member of the union a block is: the \<^verbatim>\<open>'member' in c\<close> tests of the source.\<close>

fun is_reasoningContent :: "content_block \<Rightarrow> bool" where
  "is_reasoningContent (ReasoningContent t) = True"
| "is_reasoningContent _ = False"

fun is_toolUse :: "content_block \<Rightarrow> bool" where
  "is_toolUse (ToolUse i n inp) = True"
| "is_toolUse _ = False"

fun is_cachePoint :: "content_block \<Rightarrow> bool" where
  "is_cachePoint (CachePoint t) = True"
| "is_cachePoint _ = False"

fun is_sys_cachePoint :: "system_block \<Rightarrow> bool" where
  "is_sys_cachePoint (SysCachePoint t) = True"
| "is_sys_cachePoint _ = False"

fun is_tool_cachePoint :: "tool \<Rightarrow> bool" where
  "is_tool_cachePoint (ToolCachePoint t) = True"
| "is_tool_cachePoint _ = False"

fun choice_kind :: "tool_choice \<Rightarrow> tool_choice_kind" where
  "choice_kind ChoiceAuto = Auto"
| "choice_kind ChoiceAny = Any"
| "choice_kind (ChoiceTool n) = Tool"

text \<open>\<^verbatim>\<open>input.toolConfig?.toolChoice\<close>\<close>

definition toolChoice_of :: "converse_input \<Rightarrow> tool_choice option" where
  "toolChoice_of input = Option.bind (toolConfig input) toolChoice"

text \<open>\<^verbatim>\<open>input.messages?.at(-2)?.content\<close>\<close>

definition second_last_content :: "converse_input \<Rightarrow> content_block list option" where
  "second_last_content input =
     Option.bind (Option.bind (messages input) (\<lambda>ms. at ms (- 2))) content"

text \<open>Lower case and substring search on byte strings; only the letters A to Z change.\<close>

definition lower_char :: "char \<Rightarrow> char" where
  "lower_char c =
     (case map_of (zip ''ABCDEFGHIJKLMNOPQRSTUVWXYZ'' ''abcdefghijklmnopqrstuvwxyz'') c of
        None \<Rightarrow> c
      | Some l \<Rightarrow> l)"

definition toLowerCase :: "string \<Rightarrow> string" where
  "toLowerCase s = map lower_char s"

fun join :: "string \<Rightarrow> string list \<Rightarrow> string" where
  "join sep [] = []"
| "join sep [x] = x"
| "join sep (x # y # zs) = x @ sep @ join sep (y # zs)"

fun includes_str :: "string \<Rightarrow> string \<Rightarrow> bool" where
  "includes_str [] k = (k = [])"
| "includes_str (c # cs) k = (starts_with k (c # cs) \<or> includes_str cs k)"

definition ULTRA_THINKING_KEYWORD :: string where
  "ULTRA_THINKING_KEYWORD = ''ultrathink''"

definition defaultOutputTokenCount :: int where
  "defaultOutputTokenCount = 8192"

definition messages_or_empty :: "converse_input \<Rightarrow> message list" where
  "messages_or_empty input = (case messages input of None \<Rightarrow> [] | Some ms \<Rightarrow> ms)"

definition has_text_block :: "message \<Rightarrow> bool" where
  "has_text_block m =
     (case content m of None \<Rightarrow> False | Some cs \<Rightarrow> list_ex (\<lambda>c. text_of c \<noteq> None) cs)"

text \<open>\<^verbatim>\<open>shouldUltraThink\<close> of the Bedrock client.\<close>

definition shouldUltraThink :: "converse_input \<Rightarrow> bool" where
  "shouldUltraThink input =
     (let lastUserMessage =
            pop (filter (\<lambda>m. role m = User \<and> has_text_block m) (messages_or_empty input))
      in case lastUserMessage of
           None \<Rightarrow> False
         | Some m \<Rightarrow>
             (case content m of
                None \<Rightarrow> False
              | Some cs \<Rightarrow>
                  includes_str
                    (toLowerCase
                       (join '' '' (map (\<lambda>c. case text_of c of None \<Rightarrow> [] | Some t \<Rightarrow> t) cs)))
                    ULTRA_THINKING_KEYWORD))"

text \<open>The first step: a \<^verbatim>\<open>toolChoice\<close> of a kind the model does not support is removed.\<close>

definition remove_unsupported_toolChoice :: "model_config \<Rightarrow> converse_input \<Rightarrow> converse_input" where
  "remove_unsupported_toolChoice modelConfig input =
     (case toolConfig input of
        None \<Rightarrow> input
      | Some tc \<Rightarrow>
          (case toolChoice tc of
             None \<Rightarrow> input
           | Some ch \<Rightarrow>
               if list_all (\<lambda>choice. choice \<noteq> choice_kind ch) (toolChoiceSupport modelConfig)
               then input \<lparr>toolConfig := Some (tc \<lparr>toolChoice := None\<rparr>)\<rparr>
               else input))"

definition adjustedMaxToken :: "model_config \<Rightarrow> nat \<Rightarrow> int" where
  "adjustedMaxToken modelConfig maxTokensExceededCount =
     min (maxOutputTokens modelConfig) (defaultOutputTokenCount * 2 ^ maxTokensExceededCount)"

text \<open>\<^verbatim>\<open>{ ...input.inferenceConfig, maxTokens: n }\<close>\<close>

definition with_maxTokens :: "inference_config option \<Rightarrow> int \<Rightarrow> inference_config" where
  "with_maxTokens ic n =
     (case ic of
        None \<Rightarrow> \<lparr>maxTokens = Some n, temperature = None, topP = None\<rparr>
      | Some c \<Rightarrow> c \<lparr>maxTokens := Some n\<rparr>)"

text \<open>
  The decision \<^verbatim>\<open>enableReasoning\<close>, taken on the input as it is after the first step.
\<close>

definition enableReasoning :: "model_config \<Rightarrow> converse_input \<Rightarrow> bool" where
  "enableReasoning modelConfig input =
     (if reasoningSupport modelConfig then
        (if toolChoice_of input \<noteq> None then False
         else if (case Option.bind (second_last_content input) (\<lambda>cs. at cs 0) of
                    None \<Rightarrow> True
                  | Some c \<Rightarrow> \<not> is_reasoningContent c)
               \<and> (case Option.bind (second_last_content input) (\<lambda>cs. at cs (- 1)) of
                    None \<Rightarrow> False
                  | Some c \<Rightarrow> is_toolUse c)
         then False
         else True)
      else False)"

definition thinking_budget :: "model_config \<Rightarrow> bool \<Rightarrow> int" where
  "thinking_budget modelConfig enableUltraThink =
     (if enableUltraThink then min (maxOutputTokens modelConfig div 2) 31999 else 2000)"

text \<open>
  \<^verbatim>\<open>for (let i = xs.length - 1; i >= 0; i--) if ('cachePoint' in xs[i]) xs.splice(i, 1)\<close>:
  \<open>splice_loop p n xs\<close> is the loop with \<open>n\<close> rounds to go, the next one at index \<open>n - 1\<close>.
\<close>

fun splice_loop :: "('a \<Rightarrow> bool) \<Rightarrow> nat \<Rightarrow> 'a list \<Rightarrow> 'a list" where
  "splice_loop p 0 xs = xs"
| "splice_loop p (Suc i) xs =
     splice_loop p i (if p (xs ! i) then take i xs @ drop (Suc i) xs else xs)"

definition remove_cachePoints :: "('a \<Rightarrow> bool) \<Rightarrow> 'a list \<Rightarrow> 'a list" where
  "remove_cachePoints p xs = splice_loop p (length xs) xs"

definition prune_system :: "model_config \<Rightarrow> converse_input \<Rightarrow> converse_input" where
  "prune_system modelConfig input =
     (if CacheSystem \<notin> set (cacheSupport modelConfig) then
        (case system input of
           None \<Rightarrow> input
         | Some bs \<Rightarrow> input \<lparr>system := Some (remove_cachePoints is_sys_cachePoint bs)\<rparr>)
      else input)"

definition prune_tools :: "model_config \<Rightarrow> converse_input \<Rightarrow> converse_input" where
  "prune_tools modelConfig input =
     (if CacheTool \<notin> set (cacheSupport modelConfig) then
        (case toolConfig input of
           None \<Rightarrow> input
         | Some tc \<Rightarrow>
             (case tools tc of
                None \<Rightarrow> input
              | Some ts \<Rightarrow>
                  input \<lparr>toolConfig :=
                    Some (tc \<lparr>tools := Some (remove_cachePoints is_tool_cachePoint ts)\<rparr>)\<rparr>))
      else input)"

definition prune_message :: "message \<Rightarrow> message" where
  "prune_message m =
     (case content m of
        None \<Rightarrow> m
      | Some cs \<Rightarrow> m \<lparr>content := Some (remove_cachePoints is_cachePoint cs)\<rparr>)"

definition prune_messages :: "model_config \<Rightarrow> converse_input \<Rightarrow> converse_input" where
  "prune_messages modelConfig input =
     (if CacheMessage \<notin> set (cacheSupport modelConfig) then
        (case messages input of
           None \<Rightarrow> input
         | Some ms \<Rightarrow> input \<lparr>messages := Some (map prune_message ms)\<rparr>)
      else input)"

text \<open>The \<^verbatim>\<open>else\<close> branch: reasoning blocks are filtered out of every message.\<close>

definition strip_reasoning :: "converse_input \<Rightarrow> converse_input" where
  "strip_reasoning input =
     input \<lparr>messages :=
       map_option
         (map (\<lambda>m. m \<lparr>content := map_option (filter (\<lambda>c. \<not> is_reasoningContent c)) (content m)\<rparr>))
         (messages input)\<rparr>"

text \<open>The \<^verbatim>\<open>if (enableReasoning)\<close> branch; the result carries \<^verbatim>\<open>thinkingBudget\<close>.\<close>

definition attach_reasoning ::
  "model_config \<Rightarrow> nat \<Rightarrow> converse_input \<Rightarrow> converse_input \<times> int option" where
  "attach_reasoning modelConfig maxTokensExceededCount input =
     (let enableUltraThink = shouldUltraThink input;
          budget = thinking_budget modelConfig enableUltraThink
      in (input
            \<lparr>additionalModelRequestFields :=
               Some \<lparr>budget_tokens = budget,
                     anthropic_beta =
                       (if interleavedThinkingSupport modelConfig
                        then Some [''interleaved-thinking-2025-05-14''] else None)\<rparr>,
             inferenceConfig :=
               Some (with_maxTokens (inferenceConfig input)
                 (max (adjustedMaxToken modelConfig maxTokensExceededCount)
                      (min (budget * 2) (maxOutputTokens modelConfig))))\<rparr>,
          if enableUltraThink then Some budget else None))"

text \<open>The request after the first two steps: tool choice checked, \<^verbatim>\<open>maxTokens\<close> set.\<close>

definition before_reasoning :: "model_config \<Rightarrow> nat \<Rightarrow> converse_input \<Rightarrow> converse_input" where
  "before_reasoning modelConfig maxTokensExceededCount input0 =
     (let input1 = remove_unsupported_toolChoice modelConfig input0
      in input1 \<lparr>inferenceConfig :=
                  Some (with_maxTokens (inferenceConfig input1)
                         (adjustedMaxToken modelConfig maxTokensExceededCount))\<rparr>)"

text \<open>The \<^verbatim>\<open>if (enableReasoning) ... else ...\<close> statement.\<close>

definition reasoning_step ::
  "model_config \<Rightarrow> nat \<Rightarrow> converse_input \<Rightarrow> converse_input \<times> int option" where
  "reasoning_step modelConfig maxTokensExceededCount input =
     (if enableReasoning modelConfig input
      then attach_reasoning modelConfig maxTokensExceededCount input
      else (strip_reasoning input, None))"

text \<open>
  \<^verbatim>\<open>preProcessInput\<close>. The input is cloned first, so the caller's request is not
  touched and the function is a pure one from request to request.
\<close>

definition preProcessInput ::
  "model_config \<Rightarrow> nat \<Rightarrow> converse_input \<Rightarrow> converse_input \<times> int option" where
  "preProcessInput modelConfig maxTokensExceededCount input0 =
     (let (input3, thinkingBudget) =
            reasoning_step modelConfig maxTokensExceededCount
              (before_reasoning modelConfig maxTokensExceededCount input0)
      in (prune_messages modelConfig (prune_tools modelConfig (prune_system modelConfig input3)),
          thinkingBudget))"

section \<open>The Anthropic path: \<^verbatim>\<open>convertToAnthropicFormat\<close>\<close>

text \<open>
  The request of the Messages API. A text block and a tool can carry \<^verbatim>\<open>cache_control\<close>,
  the API's cache marker; the converter builds every other block without one. The base64
  text of image bytes is kept as the bytes themselves.
\<close>

datatype cache_control = Ephemeral

record text_block_param =
  tb_text :: string
  tb_cache_control :: "cache_control option"

datatype anth_result_block =
    AResultText string
  | AResultImage string string

datatype anth_block =
    ATextBlock text_block_param
  | AImageBlock string string
  | AToolUseBlock string string string
  | AToolResultBlock string "anth_result_block list" bool
  | AThinkingBlock string string

record anth_message =
  am_role :: role
  am_content :: "anth_block list"

datatype anth_system = SystemString string | SystemBlocks "text_block_param list"

record anth_tool =
  at_name :: string
  at_description :: "string option"
  at_input_schema :: string
  at_cache_control :: "cache_control option"

record anth_thinking =
  th_budget_tokens :: int

record anth_converted =
  ac_messages :: "anth_message list"
  ac_system :: "anth_system option"
  ac_max_tokens :: int
  ac_temperature :: "string option"
  ac_top_p :: "string option"
  ac_tools :: "anth_tool list option"
  ac_thinking :: "anth_thinking option"

text \<open>\<^verbatim>\<open>x || d\<close> on an optional string: undefined and the empty string give \<open>d\<close>.\<close>

definition or_default :: "string option \<Rightarrow> string \<Rightarrow> string" where
  "or_default x d = (case x of None \<Rightarrow> d | Some s \<Rightarrow> if s = [] then d else s)"

text \<open>Property reads on the members of a union: a member that is not set reads undefined.\<close>

fun sys_text :: "system_block \<Rightarrow> string option" where
  "sys_text (SysText t) = Some t"
| "sys_text _ = None"

fun sys_cachePoint :: "system_block \<Rightarrow> string option" where
  "sys_cachePoint (SysCachePoint t) = Some t"
| "sys_cachePoint _ = None"

fun tool_toolSpec :: "tool \<Rightarrow> tool_spec option" where
  "tool_toolSpec (ToolSpec spec) = Some spec"
| "tool_toolSpec _ = None"

fun tool_cachePoint :: "tool \<Rightarrow> string option" where
  "tool_cachePoint (ToolCachePoint t) = Some t"
| "tool_cachePoint _ = None"

text \<open>\<^verbatim>\<open>cachePoint?.type === 'default'\<close> decides whether \<^verbatim>\<open>cache_control\<close> is written.\<close>

definition cache_control_of :: "string option \<Rightarrow> cache_control option" where
  "cache_control_of cachePoint = (if cachePoint = Some ''default'' then Some Ephemeral else None)"

fun convert_result_content :: "tool_result_content \<Rightarrow> anth_result_block option" where
  "convert_result_content (ResultText t) = (if t \<noteq> [] then Some (AResultText t) else None)"
| "convert_result_content (ResultImage format bytes) =
     (case bytes of
        None \<Rightarrow> None
      | Some b \<Rightarrow> Some (AResultImage (or_default format ''image/png'') b))"
| "convert_result_content ResultOther = None"

text \<open>
  The chain of \<^verbatim>\<open>if / else if\<close> in the loop over \<^verbatim>\<open>msg.content\<close>: what is pushed for one
  block, \<open>None\<close> when no branch is taken.
\<close>

fun convert_block :: "content_block \<Rightarrow> anth_block option" where
  "convert_block (Text t) =
     (if t \<noteq> [] then Some (ATextBlock \<lparr>tb_text = t, tb_cache_control = None\<rparr>) else None)"
| "convert_block (Image format bytes) =
     (case bytes of
        None \<Rightarrow> None
      | Some b \<Rightarrow> Some (AImageBlock (or_default format ''image/png'') b))"
| "convert_block (ToolUse toolUseId name inp) =
     Some (AToolUseBlock (or_default toolUseId []) (or_default name []) (or_default inp ''{}''))"
| "convert_block (ToolResult toolUseId cont status) =
     Some (AToolResultBlock (or_default toolUseId [])
             (case cont of None \<Rightarrow> [] | Some rcs \<Rightarrow> List.map_filter convert_result_content rcs)
             (status = Some ''error''))"
| "convert_block (ReasoningContent t) =
     Some (AThinkingBlock [] (case t of None \<Rightarrow> [] | Some x \<Rightarrow> x))"
| "convert_block (CachePoint t) = None"

definition convert_message :: "message \<Rightarrow> anth_message" where
  "convert_message msg =
     \<lparr>am_role = role msg,
      am_content = (case content msg of None \<Rightarrow> [] | Some cs \<Rightarrow> List.map_filter convert_block cs)\<rparr>"

definition convert_system_block :: "system_block \<Rightarrow> text_block_param option" where
  "convert_system_block s =
     (case sys_text s of
        None \<Rightarrow> None
      | Some t \<Rightarrow>
          if t \<noteq> []
          then Some \<lparr>tb_text = t, tb_cache_control = cache_control_of (sys_cachePoint s)\<rparr>
          else None)"

definition convert_system :: "system_block list option \<Rightarrow> anth_system option" where
  "convert_system sys =
     (case sys of
        None \<Rightarrow> None
      | Some bs \<Rightarrow>
          if length bs > 0 then
            (let systemBlocks = List.map_filter convert_system_block bs
             in Some (case systemBlocks of
                        [b] \<Rightarrow> SystemString (tb_text b)
                      | _ \<Rightarrow> SystemBlocks systemBlocks))
          else None)"

definition convert_tool :: "tool \<Rightarrow> anth_tool option" where
  "convert_tool tool =
     (case tool_toolSpec tool of
        None \<Rightarrow> None
      | Some spec \<Rightarrow>
          Some \<lparr>at_name = or_default (ts_name spec) [],
                at_description = ts_description spec,
                at_input_schema =
                  (case ts_inputSchema_json spec of
                     None \<Rightarrow> ''{type:object,properties:{},required:[]}''
                   | Some base \<Rightarrow>
                       if fst base = Some ''object'' then snd base
                       else ''{type:object,properties:{},required:[]}''),
                at_cache_control = cache_control_of (tool_cachePoint tool)\<rparr>)"

definition convert_tools :: "tool_config option \<Rightarrow> anth_tool list option" where
  "convert_tools tc =
     (case Option.bind tc tools of
        None \<Rightarrow> None
      | Some ts \<Rightarrow> if length ts > 0 then Some (List.map_filter convert_tool ts) else None)"

text \<open>\<^verbatim>\<open>shouldUltraThink\<close> of the Anthropic client: empty texts do not count, reasoning text does.\<close>

definition has_nonempty_text_block :: "message \<Rightarrow> bool" where
  "has_nonempty_text_block m =
     (case content m of
        None \<Rightarrow> False
      | Some cs \<Rightarrow> list_ex (\<lambda>c. case text_of c of None \<Rightarrow> False | Some t \<Rightarrow> t \<noteq> []) cs)"

fun anthropic_block_text :: "content_block \<Rightarrow> string" where
  "anthropic_block_text (Text t) = t"
| "anthropic_block_text (ReasoningContent t) = (case t of None \<Rightarrow> [] | Some x \<Rightarrow> x)"
| "anthropic_block_text _ = []"

definition anthropic_shouldUltraThink :: "converse_input \<Rightarrow> bool" where
  "anthropic_shouldUltraThink input =
     (let lastUserMessage =
            pop (filter (\<lambda>m. role m = User \<and> has_nonempty_text_block m) (messages_or_empty input))
      in case lastUserMessage of
           None \<Rightarrow> False
         | Some m \<Rightarrow>
             (case content m of
                None \<Rightarrow> False
              | Some cs \<Rightarrow>
                  includes_str (toLowerCase (join '' '' (map anthropic_block_text cs)))
                    ULTRA_THINKING_KEYWORD))"

text \<open>
  \<^verbatim>\<open>shouldEnableReasoning\<close> as the Anthropic converter computes it: no tool choice, and not
  (the first block of the second-to-last message is a reasoning block and its last block
  is a tool use).
\<close>

definition shouldEnableReasoning :: "converse_input \<Rightarrow> bool" where
  "shouldEnableReasoning input =
     (toolChoice_of input = None
      \<and> \<not> ((case Option.bind (second_last_content input) (\<lambda>cs. at cs 0) of
                None \<Rightarrow> False
              | Some c \<Rightarrow> is_reasoningContent c)
           \<and> (case Option.bind (second_last_content input) (\<lambda>cs. at cs (- 1)) of
                None \<Rightarrow> False
              | Some c \<Rightarrow> is_toolUse c)))"

definition convertToAnthropicFormat :: "converse_input \<Rightarrow> model_config \<Rightarrow> anth_converted" where
  "convertToAnthropicFormat input modelConfig =
     \<lparr>ac_messages = map convert_message (messages_or_empty input),
      ac_system = convert_system (system input),
      ac_max_tokens =
        (case Option.bind (inferenceConfig input) maxTokens of
           None \<Rightarrow> 8192
         | Some n \<Rightarrow> if n = 0 then 8192 else n),
      ac_temperature = Option.bind (inferenceConfig input) temperature,
      ac_top_p = Option.bind (inferenceConfig input) topP,
      ac_tools = convert_tools (toolConfig input),
      ac_thinking =
        (if reasoningSupport modelConfig \<and> shouldEnableReasoning input
         then Some \<lparr>th_budget_tokens =
                      thinking_budget modelConfig (anthropic_shouldUltraThink input)\<rparr>
         else None)\<rparr>"

text \<open>
  The request parameters \<^verbatim>\<open>anthropicConverse\<close> sends: \<^verbatim>\<open>system\<close> only when truthy (an
  empty string is not), \<^verbatim>\<open>tools\<close> only when non-empty, \<^verbatim>\<open>thinking\<close> when set, and the
  interleaved-thinking beta when the model supports it and thinking is set.
\<close>

record anth_request =
  rq_model :: string
  rq_messages :: "anth_message list"
  rq_max_tokens :: int
  rq_system :: "anth_system option"
  rq_temperature :: "string option"
  rq_top_p :: "string option"
  rq_tools :: "anth_tool list option"
  rq_thinking :: "anth_thinking option"
  rq_betas :: "string list option"

definition anthropicRequestParams :: "converse_input \<Rightarrow> model_config \<Rightarrow> anth_request" where
  "anthropicRequestParams input modelConfig =
     (let conv = convertToAnthropicFormat input modelConfig
      in \<lparr>rq_model = modelTypeToAnthropicModel modelConfig,
          rq_messages = ac_messages conv,
          rq_max_tokens = ac_max_tokens conv,
          rq_system =
            (case ac_system conv of
               Some (SystemString []) \<Rightarrow> None
             | other \<Rightarrow> other),
          rq_temperature = ac_temperature conv,
          rq_top_p = ac_top_p conv,
          rq_tools =
            (case ac_tools conv of
               None \<Rightarrow> None
             | Some ts \<Rightarrow> if length ts > 0 then Some ts else None),
          rq_thinking = ac_thinking conv,
          rq_betas =
            (if interleavedThinkingSupport modelConfig \<and> ac_thinking conv \<noteq> None
             then Some [''interleaved-thinking-2025-05-14''] else None)\<rparr>)"

section \<open>The properties the specification names, in its own words\<close>

text \<open>
  Reasoning blocks and cache markers of a request, counted per layer, for the neutral
  request and for the Anthropic request.
\<close>

definition reasoning_blocks :: "converse_input \<Rightarrow> content_block list" where
  "reasoning_blocks input =
     concat (map (\<lambda>m. filter is_reasoningContent (case content m of None \<Rightarrow> [] | Some cs \<Rightarrow> cs))
               (messages_or_empty input))"

fun is_thinking_block :: "anth_block \<Rightarrow> bool" where
  "is_thinking_block (AThinkingBlock sig t) = True"
| "is_thinking_block _ = False"

definition anth_reasoning_blocks :: "anth_request \<Rightarrow> anth_block list" where
  "anth_reasoning_blocks rq = concat (map (\<lambda>m. filter is_thinking_block (am_content m)) (rq_messages rq))"

definition system_cache_markers :: "converse_input \<Rightarrow> nat" where
  "system_cache_markers input =
     length (filter is_sys_cachePoint (case system input of None \<Rightarrow> [] | Some bs \<Rightarrow> bs))"

definition tool_cache_markers :: "converse_input \<Rightarrow> nat" where
  "tool_cache_markers input =
     length (filter is_tool_cachePoint
               (case Option.bind (toolConfig input) tools of None \<Rightarrow> [] | Some ts \<Rightarrow> ts))"

definition message_cache_markers :: "converse_input \<Rightarrow> nat" where
  "message_cache_markers input =
     length (concat (map (\<lambda>m. filter is_cachePoint (case content m of None \<Rightarrow> [] | Some cs \<Rightarrow> cs))
                       (messages_or_empty input)))"

fun block_has_cache_control :: "anth_block \<Rightarrow> bool" where
  "block_has_cache_control (ATextBlock b) = (tb_cache_control b \<noteq> None)"
| "block_has_cache_control _ = False"

definition anth_system_cache_markers :: "anth_request \<Rightarrow> nat" where
  "anth_system_cache_markers rq =
     (case rq_system rq of
        Some (SystemBlocks bs) \<Rightarrow> length (filter (\<lambda>b. tb_cache_control b \<noteq> None) bs)
      | _ \<Rightarrow> 0)"

definition anth_tool_cache_markers :: "anth_request \<Rightarrow> nat" where
  "anth_tool_cache_markers rq =
     length (filter (\<lambda>t. at_cache_control t \<noteq> None)
               (case rq_tools rq of None \<Rightarrow> [] | Some ts \<Rightarrow> ts))"

definition anth_message_cache_markers :: "anth_request \<Rightarrow> nat" where
  "anth_message_cache_markers rq =
     length (concat (map (\<lambda>m. filter block_has_cache_control (am_content m)) (rq_messages rq)))"

text \<open>
  ``The second-to-last message is a tool-use message lacking a preceding reasoning block'':
  there are at least two messages, and the one before the last has content that ends in
  a tool use and does not begin with a reasoning block.
\<close>

definition spec_tool_use_without_reasoning :: "converse_input \<Rightarrow> bool" where
  "spec_tool_use_without_reasoning input =
     (let ms = messages_or_empty input
      in 2 \<le> length ms
         \<and> (case content (ms ! (length ms - 2)) of
              None \<Rightarrow> False
            | Some cs \<Rightarrow> cs \<noteq> [] \<and> is_toolUse (last cs) \<and> \<not> is_reasoningContent (hd cs)))"

definition spec_reasoning_enabled :: "model_config \<Rightarrow> converse_input \<Rightarrow> bool" where
  "spec_reasoning_enabled modelConfig input =
     (reasoningSupport modelConfig \<and> toolChoice_of input = None
      \<and> \<not> spec_tool_use_without_reasoning input)"

text \<open>
  ``The text content of the last user message that contains text, lowercased, contains the
  substring ultrathink'': searching from the end for a user message with a text block,
  and asking whether the lower-cased text of one of its text blocks contains the keyword.
\<close>

definition spec_last_user_text_message :: "converse_input \<Rightarrow> message option" where
  "spec_last_user_text_message input =
     find (\<lambda>m. role m = User \<and> has_text_block m) (rev (messages_or_empty input))"

definition spec_ultrathink_requested :: "converse_input \<Rightarrow> bool" where
  "spec_ultrathink_requested input =
     (case spec_last_user_text_message input of
        None \<Rightarrow> False
      | Some m \<Rightarrow>
          list_ex (\<lambda>c. case text_of c of
                         None \<Rightarrow> False
                       | Some t \<Rightarrow> includes_str (toLowerCase t) ''ultrathink'')
                  (case content m of None \<Rightarrow> [] | Some cs \<Rightarrow> cs))"

section \<open>Example requests\<close>

text \<open>A model that supports reasoning, and two requests in the middle of a tool chain.\<close>

definition example_reasoning_model :: model_config where
  "example_reasoning_model =
     \<lparr>modelId = ''anthropic.claude-sonnet-4-5-20250929-v1:0'', maxOutputTokens = 64000,
      reasoningSupport = True, interleavedThinkingSupport = True,
      toolChoiceSupport = [Auto, Any, Tool],
      cacheSupport = [CacheSystem, CacheTool, CacheMessage]\<rparr>"

text \<open>The assistant's tool use came without a reasoning block.\<close>

definition example_tool_chain_plain :: converse_input where
  "example_tool_chain_plain =
     \<lparr>messages = Some
        [\<lparr>role = User, content = Some [Text ''list files'']\<rparr>,
         \<lparr>role = Assistant,
          content = Some [ToolUse (Some ''t1'') (Some ''commandExecution'') (Some ''ls'')]\<rparr>,
         \<lparr>role = User,
          content = Some [ToolResult (Some ''t1'') (Some [ResultText ''a.txt'']) None]\<rparr>],
      system = Some [SysText ''You are an agent'', SysCachePoint ''default''],
      toolConfig = None, inferenceConfig = None, additionalModelRequestFields = None\<rparr>"

text \<open>The assistant's tool use came with a reasoning block in front.\<close>

definition example_tool_chain_reasoned :: converse_input where
  "example_tool_chain_reasoned =
     \<lparr>messages = Some
        [\<lparr>role = User, content = Some [Text ''list files'']\<rparr>,
         \<lparr>role = Assistant,
          content = Some [ReasoningContent (Some ''I should run ls''),
                          ToolUse (Some ''t1'') (Some ''commandExecution'') (Some ''ls'')]\<rparr>,
         \<lparr>role = User,
          content = Some [ToolResult (Some ''t1'') (Some [ResultText ''a.txt'']) None]\<rparr>],
      system = Some [SysText ''You are an agent'', SysCachePoint ''default''],
      toolConfig = None, inferenceConfig = None, additionalModelRequestFields = None\<rparr>"

section \<open>Token attribution in the agent loop\<close>

text \<open>A conversation item as the loop reads it: sort key, role and token count.\<close>

record message_item =
  SK :: string
  item_role :: role
  tokenCount :: int

text \<open>
  Modelled from the spec: \<^verbatim>\<open>noOpFiltering\<close> of the context manager (agent-core, not among
  the sources) is the identity projection of the items plus the sum of their token counts.
\<close>

definition noOpFiltering :: "message_item list \<Rightarrow> message_item list \<times> int" where
  "noOpFiltering items = (items, sum_list (map tokenCount items))"

text \<open>
  Modelled from the spec: \<^verbatim>\<open>middleOutFiltering\<close> of the context manager (agent-core, not
  among the sources) removes a contiguous range from the middle of the log and returns the
  remaining items with the sum of their token counts. Which range the policy picks is not
  modelled: \<open>removed = (a, b)\<close> says that the items from index \<open>a\<close> up to \<open>b\<close> are removed.
\<close>

definition middleOutFiltering :: "nat \<times> nat \<Rightarrow> message_item list \<Rightarrow> message_item list \<times> int" where
  "middleOutFiltering removed items =
     (let kept = take (fst removed) items @ drop (snd removed) items
      in (kept, sum_list (map tokenCount kept)))"

text \<open>The choice of filter at the top of an iteration (threshold 190000).\<close>

definition message_window :: "nat \<times> nat \<Rightarrow> message_item list \<Rightarrow> message_item list \<times> int" where
  "message_window removed items =
     (if sum_list (map tokenCount items) > 190000
      then middleOutFiltering removed items
      else noOpFiltering items)"

text \<open>
  \<^verbatim>\<open>(usage?.inputTokens ?? 0) + (usage?.cacheReadInputTokens ?? 0) + (usage?.cacheWriteInputTokens ?? 0)\<close>
\<close>

definition or_zero :: "int option \<Rightarrow> int" where
  "or_zero x = (case x of None \<Rightarrow> 0 | Some n \<Rightarrow> n)"

definition billed_input_tokens :: "converse_response \<Rightarrow> int" where
  "billed_input_tokens res =
     or_zero (Option.bind (usage res) inputTokens)
     + or_zero (Option.bind (usage res) cacheReadInputTokens)
     + or_zero (Option.bind (usage res) cacheWriteInputTokens)"

text \<open>
  \<^verbatim>\<open>lastItem.tokenCount = tokenCount\<close>: \<^verbatim>\<open>items\<close> is a fresh array of the objects held by
  \<^verbatim>\<open>initialItems\<close> and \<^verbatim>\<open>appendedItems\<close>, so the assignment changes the last object of
  \<^verbatim>\<open>appendedItems\<close>, or of \<^verbatim>\<open>initialItems\<close> when nothing has been appended yet.
\<close>

definition set_last_tokenCount ::
  "int \<Rightarrow> message_item list \<times> message_item list \<Rightarrow> message_item list \<times> message_item list" where
  "set_last_tokenCount n held =
     (if snd held \<noteq> []
      then (fst held, butlast (snd held) @ [(last (snd held)) \<lparr>tokenCount := n\<rparr>])
      else (butlast (fst held) @ [(last (fst held)) \<lparr>tokenCount := n\<rparr>], snd held))"

text \<open>
  The block after the response has arrived. The result is the two item lists and the
  calls made to \<^verbatim>\<open>updateMessageTokenCount\<close>, each as (sort key, token count).
\<close>

definition attribute_input_tokens ::
  "nat \<times> nat \<Rightarrow> converse_response \<Rightarrow> message_item list \<times> message_item list
     \<Rightarrow> (message_item list \<times> message_item list) \<times> (string \<times> int) list" where
  "attribute_input_tokens removed res held =
     (let items = fst held @ snd held;
          totalTokenCount = snd (message_window removed items)
      in case at items (- 1) of
           None \<Rightarrow> (held, [])
         | Some lastItem \<Rightarrow>
             if item_role lastItem = User
             then (let n = billed_input_tokens res - totalTokenCount
                   in (set_last_tokenCount n held, [(SK lastItem, n)]))
             else (held, []))"

section \<open>The agent turn: retry wrapper, loop and cancellation\<close>

text \<open>
  What happens around one run of the callback given to the retry wrapper: whether the
  cancellation token gets set before the callback's check (during the waiting and the
  awaits that precede it), what the provider does when it is called, and whether the
  token gets set while that call is in flight or while its response is handled.
\<close>

record env_step =
  cancel_before :: bool
  outcome :: provider_outcome
  cancel_during :: bool

text \<open>
  What happens around the call that generates the session title after the loop: what the
  provider does, and whether the token gets set meanwhile.
\<close>

record title_step =
  title_outcome :: provider_outcome
  title_cancel :: bool

datatype agent_status = Pending | Working | Cancelling

text \<open>
  A call that reached the provider: one for the conversation, with the value of
  \<^verbatim>\<open>maxTokensExceededCount\<close> it was made with, or the one for the session title.
\<close>

datatype provider_call = ConversationCall nat | TitleCall

text \<open>
  The state of a turn: the token, the loop's \<^verbatim>\<open>maxTokensExceededCount\<close>, the module's
  \<^verbatim>\<open>currentAccountIndex\<close>, how often the callback has run, the calls that reached the
  provider, the messages saved to the conversation history in this turn, the session's
  status and title, and how often the cancel callback was awaited.
\<close>

record turn_state =
  isCancelled :: bool
  maxTokensExceededCount :: nat
  currentAccountIndex :: nat
  attempts :: nat
  provider_calls :: "provider_call list"
  history :: "message list"
  agentStatus :: agent_status
  sessionTitle :: "string option"
  cancelCallbacks :: nat

text \<open>
  What the callback throws: a \<^verbatim>\<open>ThrottlingException\<close> as it is, the sentinel
  \<^verbatim>\<open>MaxTokenExceededError\<close>, or an \<^verbatim>\<open>AbortError\<close> around any other error.
\<close>

datatype thrown =
    Rethrown converse_error
  | MaxTokenExceededError
  | AbortError converse_error

datatype attempt_result =
    Returned "converse_response option"
  | Thrown thrown

text \<open>
  The callback of \<^verbatim>\<open>pRetry\<close> in \<^verbatim>\<open>agentLoop\<close>: the check of the token, the call of
  \<^verbatim>\<open>converse\<close> (the Bedrock path; both paths start with the same guard on the count), the
  test for \<^verbatim>\<open>max_tokens\<close>, and the \<^verbatim>\<open>catch\<close>.
\<close>

definition attempt ::
  "string list \<Rightarrow> (nat \<Rightarrow> env_step) \<Rightarrow> turn_state \<Rightarrow> attempt_result \<times> turn_state" where
  "attempt accounts env st0 =
     (let step = env (attempts st0);
          st = st0 \<lparr>attempts := Suc (attempts st0),
                    isCancelled := isCancelled st0 \<or> cancel_before step\<rparr>
      in if isCancelled st then (Returned None, st)
         else
           (let count = maxTokensExceededCount st;
                answer = bedrockConverse accounts (currentAccountIndex st) count (outcome step);
                st1 = st \<lparr>currentAccountIndex := fst answer,
                          provider_calls :=
                            (if count > 5 then provider_calls st
                             else provider_calls st @ [ConversationCall count]),
                          isCancelled := cancel_during step\<rparr>
            in case snd answer of
                 Inr res \<Rightarrow>
                   if stopReason res = Some MaxTokensStop
                   then (Thrown MaxTokenExceededError, st1 \<lparr>maxTokensExceededCount := Suc count\<rparr>)
                   else (Returned (Some res), st1)
               | Inl e \<Rightarrow>
                   if e = ThrottlingException
                   then (Thrown (Rethrown e), st1)
                   else (Thrown (AbortError e), st1)))"

text \<open>
  How a call of the retry wrapper ends: with the callback's result, with an error of the
  callback, or with the wrapper's own \<^verbatim>\<open>TypeError\<close> ``Non-error was thrown''.
\<close>

datatype retry_result =
    Resolved "converse_response option"
  | Rejected thrown
  | RejectedNonError

text \<open>
  The retry wrapper is the library p-retry, which is not among the sources; this is how
  the library behaves. A thrown value that is not an \<^verbatim>\<open>Error\<close> makes it reject at once with
  a \<^verbatim>\<open>TypeError\<close>; an \<^verbatim>\<open>AbortError\<close> makes it reject at once with the wrapped error; any
  other error is followed by another run of the callback while retries are left, and by a
  rejection with that error when they are used up. The sentinel is declared as
  \<^verbatim>\<open>class MaxTokenExceededError {}\<close>: it does not extend \<^verbatim>\<open>Error\<close>, so it is the first case.
\<close>

fun pRetry ::
  "string list \<Rightarrow> (nat \<Rightarrow> env_step) \<Rightarrow> nat \<Rightarrow> turn_state \<Rightarrow> retry_result \<times> turn_state" where
  "pRetry accounts env 0 st =
     (case attempt accounts env st of
        (Returned r, st') \<Rightarrow> (Resolved r, st')
      | (Thrown e, st') \<Rightarrow>
          (case e of
             MaxTokenExceededError \<Rightarrow> (RejectedNonError, st')
           | _ \<Rightarrow> (Rejected e, st')))"
| "pRetry accounts env (Suc retriesLeft) st =
     (case attempt accounts env st of
        (Returned r, st') \<Rightarrow> (Resolved r, st')
      | (Thrown e, st') \<Rightarrow>
          (case e of
             MaxTokenExceededError \<Rightarrow> (RejectedNonError, st')
           | AbortError err \<Rightarrow> (Rejected e, st')
           | Rethrown err \<Rightarrow> pRetry accounts env retriesLeft st'))"

fun toolUseId_of :: "content_block \<Rightarrow> string option" where
  "toolUseId_of (ToolUse toolUseId name inp) = toolUseId"
| "toolUseId_of _ = None"

text \<open>
  The tool result message: one \<^verbatim>\<open>toolResult\<close> block per request, with what running the
  tool gave (an error inside a tool becomes a result text, so every request has one).
\<close>

definition toolResultMessage ::
  "(content_block \<Rightarrow> tool_result_content list) \<Rightarrow> content_block list \<Rightarrow> message" where
  "toolResultMessage run_tool requests =
     \<lparr>role = User,
      content = Some (map (\<lambda>request. ToolResult (toolUseId_of request) (Some (run_tool request)) None)
                        requests)\<rparr>"

datatype loop_error =
    RetryRejected thrown
  | NonErrorThrown
  | OutputIsNull
  | ToolUseIsNull

datatype loop_exit =
    LoopReturned
  | LoopThrew loop_error

text \<open>
  The \<^verbatim>\<open>while (true)\<close> loop of \<^verbatim>\<open>agentLoop\<close>, as far as it decides what is called and what
  is saved: the check of the token, the retried call, \<^verbatim>\<open>if (!res) break\<close>, the tool branch
  with \<^verbatim>\<open>saveConversationHistoryAtomic\<close>, and the final branch with
  \<^verbatim>\<open>saveConversationHistory\<close>. The loop can go on for as long as the provider answers
  with tool uses, so it runs on fuel and \<open>None\<close> means that the fuel ran out.
\<close>

fun turn_loop ::
  "string list \<Rightarrow> (nat \<Rightarrow> env_step) \<Rightarrow> (content_block \<Rightarrow> tool_result_content list)
     \<Rightarrow> nat \<Rightarrow> turn_state \<Rightarrow> (loop_exit \<times> turn_state) option" where
  "turn_loop accounts env run_tool 0 st = None"
| "turn_loop accounts env run_tool (Suc fuel) st =
     (if isCancelled st then Some (LoopReturned, st)
      else
        (case pRetry accounts env 100 st of
           (Rejected e, st1) \<Rightarrow> Some (LoopThrew (RetryRejected e), st1)
         | (RejectedNonError, st1) \<Rightarrow> Some (LoopThrew NonErrorThrown, st1)
         | (Resolved None, st1) \<Rightarrow> Some (LoopReturned, st1)
         | (Resolved (Some res), st1) \<Rightarrow>
             if stopReason res = Some ToolUseStop then
               (case output_message res of
                  None \<Rightarrow> Some (LoopThrew OutputIsNull, st1)
                | Some toolUseMessage \<Rightarrow>
                    (let requests =
                           filter is_toolUse
                             (case content toolUseMessage of None \<Rightarrow> [] | Some cs \<Rightarrow> cs)
                     in if list_ex (\<lambda>request. toolUseId_of request = None) requests
                        then Some (LoopThrew ToolUseIsNull, st1)
                        else turn_loop accounts env run_tool fuel
                               (st1 \<lparr>history :=
                                  history st1 @ [toolUseMessage, toolResultMessage run_tool requests]\<rparr>)))
             else
               (case output_message res of
                  None \<Rightarrow> Some (LoopReturned, st1)
                | Some finalMessage \<Rightarrow>
                    (case content finalMessage of
                       None \<Rightarrow> Some (LoopReturned, st1)
                     | Some cs \<Rightarrow>
                         if cs = [] then Some (LoopReturned, st1)
                         else Some (LoopReturned, st1 \<lparr>history := history st1 @ [finalMessage]\<rparr>)))))"

text \<open>
  The block after the loop. The transcript \<^verbatim>\<open>conversation\<close> starts with the user's line and
  is never empty, so the title is generated whenever the session has none, also when the
  loop was left because of the token. \<^verbatim>\<open>generateSessionTitle\<close> calls \<^verbatim>\<open>converse\<close> once, with
  the count at its default 0 and outside any retry wrapper, and swallows its errors; an
  empty title is not stored.
\<close>

definition title_generation :: "string list \<Rightarrow> title_step \<Rightarrow> turn_state \<Rightarrow> turn_state" where
  "title_generation accounts tstep st =
     (if (case sessionTitle st of None \<Rightarrow> True | Some t \<Rightarrow> t = [])
      then (let answer = bedrockConverse accounts (currentAccountIndex st) 0 (title_outcome tstep);
                title = generateSessionTitle (snd answer);
                st1 = st \<lparr>currentAccountIndex := fst answer,
                          provider_calls := provider_calls st @ [TitleCall],
                          isCancelled := isCancelled st \<or> title_cancel tstep\<rparr>
            in if title \<noteq> [] then st1 \<lparr>sessionTitle := Some title\<rparr> else st1)
      else st)"

text \<open>
  \<^verbatim>\<open>agentLoop\<close>: the count starts at 0 for the turn; the loop; then the title, which is
  reached when the loop was left by \<^verbatim>\<open>break\<close> and not when something was thrown out of it.
\<close>

definition agentLoop ::
  "string list \<Rightarrow> (nat \<Rightarrow> env_step) \<Rightarrow> title_step \<Rightarrow> (content_block \<Rightarrow> tool_result_content list)
     \<Rightarrow> nat \<Rightarrow> turn_state \<Rightarrow> (loop_exit \<times> turn_state) option" where
  "agentLoop accounts env tstep run_tool fuel st =
     (case turn_loop accounts env run_tool fuel (st \<lparr>maxTokensExceededCount := 0\<rparr>) of
        None \<Rightarrow> None
      | Some (exit, st1) \<Rightarrow>
          (case exit of
             LoopReturned \<Rightarrow> Some (LoopReturned, title_generation accounts tstep st1)
           | LoopThrew err \<Rightarrow> Some (LoopThrew err, st1)))"

text \<open>
  \<^verbatim>\<open>onMessageReceived\<close>. Modelled from the spec: \<^verbatim>\<open>updateAgentStatusWithEvent\<close> and the
  token's \<^verbatim>\<open>completeCancel\<close> (worker package, not among the sources) set the session's
  status and await the registered cancel callback. The \<^verbatim>\<open>finally\<close> block runs whether the
  loop returned or threw.
\<close>

definition onMessageReceived ::
  "string list \<Rightarrow> (nat \<Rightarrow> env_step) \<Rightarrow> title_step \<Rightarrow> (content_block \<Rightarrow> tool_result_content list)
     \<Rightarrow> nat \<Rightarrow> turn_state \<Rightarrow> (loop_exit \<times> turn_state) option" where
  "onMessageReceived accounts env tstep run_tool fuel st0 =
     (case agentLoop accounts env tstep run_tool fuel (st0 \<lparr>agentStatus := Working\<rparr>) of
        None \<Rightarrow> None
      | Some (exit, st) \<Rightarrow>
          Some (exit,
                if isCancelled st
                then st \<lparr>cancelCallbacks := Suc (cancelCallbacks st)\<rparr>
                else st \<lparr>agentStatus := Pending\<rparr>))"

text \<open>Environments and a starting state for the examples.\<close>

definition final_answer :: converse_response where
  "final_answer =
     \<lparr>output_message = Some \<lparr>role = Assistant, content = Some [Text ''Done.'']\<rparr>,
      stopReason = Some EndTurn, usage = None\<rparr>"

definition truncated_answer :: converse_response where
  "truncated_answer =
     \<lparr>output_message = Some \<lparr>role = Assistant, content = Some [Text ''Let me'']\<rparr>,
      stopReason = Some MaxTokensStop, usage = None\<rparr>"

definition title_answer :: converse_response where
  "title_answer =
     \<lparr>output_message = Some \<lparr>role = Assistant, content = Some [Text '' Greeting'']\<rparr>,
      stopReason = Some EndTurn, usage = None\<rparr>"

definition title_step_ok :: title_step where
  "title_step_ok = \<lparr>title_outcome = Responded title_answer, title_cancel = False\<rparr>"



text \<open>
  No cancellation; the first answer stops with \<^verbatim>\<open>max_tokens\<close>, and any later call would
  get a complete answer.
\<close>

definition env_max_tokens_once :: "nat \<Rightarrow> env_step" where
  "env_max_tokens_once k =
     \<lparr>cancel_before = False,
      outcome = Responded (if k = 0 then truncated_answer else final_answer),
      cancel_during = False\<rparr>"

definition fresh_turn :: turn_state where
  "fresh_turn =
     \<lparr>isCancelled = False, maxTokensExceededCount = 0, currentAccountIndex = 0, attempts = 0,
      provider_calls = [], history = [], agentStatus = Pending, sessionTitle = None,
      cancelCallbacks = 0\<rparr>"

definition no_tools :: "content_block \<Rightarrow> tool_result_content list" where
  "no_tools request = [ResultText ''ok'']"

section \<open>Results\<close>

lemma split_comma_nonempty: "split_comma s \<noteq> []"
  by (induction s) (auto split: list.splits)

lemma awsAccounts_length: "0 < length (awsAccounts env)"
  by (simp add: awsAccounts_def split_comma_nonempty)

text \<open>
  C3. On the Bedrock converse path over the configured account list (N accounts, N at
  least 1 because split never returns an empty list), a throttling error from the
  provider moves the account index to (index + 1) mod N, stays below N, and is rethrown;
  a successful call returns the response and leaves the index as it was.
\<close>

theorem bedrockConverse_rotation:
  "c \<le> 5 \<Longrightarrow>
     bedrockConverse (awsAccounts env) i c Throttled
       = ((i + 1) mod length (awsAccounts env), Inl ThrottlingException)
     \<and> fst (bedrockConverse (awsAccounts env) i c Throttled) < length (awsAccounts env)
     \<and> bedrockConverse (awsAccounts env) i c (Responded r) = (i, Inr r)"
  using awsAccounts_length [of env] by (simp add: bedrockConverse_def)

theorem bedrockConverse_rotation_witness:
  "(0::nat) \<le> 5
   \<and> bedrockConverse (awsAccounts (Some ''111,222,333'')) 2 0 Throttled
       = (0, Inl ThrottlingException)
   \<and> bedrockConverse (awsAccounts (Some ''111,222,333'')) 2 0
         (Responded \<lparr>output_message = None, stopReason = Some EndTurn, usage = None\<rparr>)
       = (2, Inr \<lparr>output_message = None, stopReason = Some EndTurn, usage = None\<rparr>)"
proof -
  have n: "length (awsAccounts (Some ''111,222,333'')) = 3"
    by (simp add: awsAccounts_def)
  have h: "(0::nat) \<le> 5" by simp
  show ?thesis
    using bedrockConverse_rotation [OF h, of "Some ''111,222,333''" 2
        "\<lparr>output_message = None, stopReason = Some EndTurn, usage = None\<rparr>"] n
    by simp
qed

text \<open>
  C10. The mapping from a model to an Anthropic API model name is a total function with
  a string result, and for every model whose base model id (regional prefix removed) is
  not a key of the fixed table it returns the default name.
\<close>

theorem modelTypeToAnthropicModel_default:
  "(map_of modelMapping (strip_cri_prefix (modelId cfg)) = None
      \<longrightarrow> modelTypeToAnthropicModel cfg = ''claude-sonnet-4.5-20250929'')
   \<and> modelTypeToAnthropicModel cfg
       \<in> insert ''claude-sonnet-4.5-20250929'' (snd ` set modelMapping)"
  by (auto simp: modelTypeToAnthropicModel_def Let_def split: option.splits
      dest: map_of_SomeD intro: rev_image_eqI)

theorem modelTypeToAnthropicModel_default_witness:
  "map_of modelMapping (strip_cri_prefix ''us.amazon.nova-pro-v1:0'') = None
   \<and> modelTypeToAnthropicModel
        \<lparr>modelId = ''us.amazon.nova-pro-v1:0'', maxOutputTokens = 8192,
         reasoningSupport = False, interleavedThinkingSupport = False,
         toolChoiceSupport = [], cacheSupport = []\<rparr> = ''claude-sonnet-4.5-20250929''"
proof -
  have h: "map_of modelMapping (strip_cri_prefix ''us.amazon.nova-pro-v1:0'') = None"
    by (simp add: modelMapping_def strip_cri_prefix_def starts_with_def)
  show ?thesis
    using h modelTypeToAnthropicModel_default
      [of "\<lparr>modelId = ''us.amazon.nova-pro-v1:0'', maxOutputTokens = 8192,
         reasoningSupport = False, interleavedThinkingSupport = False,
         toolChoiceSupport = [], cacheSupport = []\<rparr>"]
    by simp
qed

subsection \<open>Session store\<close>

lemma set_defined_params: "set (defined_params ps) = {(k, v). (k, Some v) \<in> set ps}"
  by (induction ps) (auto simp: defined_params_def split: option.splits)

lemma distinct_defined_params:
  "distinct (map fst ps) \<Longrightarrow> distinct (map fst (defined_params ps))"
proof (induction ps)
  case Nil
  then show ?case by (simp add: defined_params_def)
next
  case (Cons p ps)
  have step: "defined_params (p # ps)
      = (case snd p of None \<Rightarrow> [] | Some v \<Rightarrow> [(fst p, v)]) @ defined_params ps"
    by (simp add: defined_params_def)
  have "fst ` set (defined_params ps) \<subseteq> fst ` set ps"
    by (force simp: set_defined_params)
  with Cons show ?case
    by (auto simp: step split: option.splits)
qed

lemma fold_add_param_expr:
  "uc_UpdateExpression (fold add_param ps cmd)
     = uc_UpdateExpression cmd @ map (\<lambda>kv. (CHR ''#'' # fst kv, CHR '':'' # fst kv)) (defined_params ps)"
  by (induction ps arbitrary: cmd) (auto simp: add_param_def defined_params_def split: option.splits)

lemma fold_add_param_key: "uc_Key (fold add_param ps cmd) = uc_Key cmd"
  by (induction ps arbitrary: cmd) (auto simp: add_param_def split: option.splits)

lemma fold_add_param_names:
  "uc_ExpressionAttributeNames (fold add_param ps cmd) n
     = (if n \<in> (\<lambda>kv. CHR ''#'' # fst kv) ` set (defined_params ps) then Some (tl n)
        else uc_ExpressionAttributeNames cmd n)"
  by (induction ps arbitrary: cmd) (auto simp: add_param_def defined_params_def split: option.splits)

lemma map_of_rev_distinct: "distinct (map fst xs) \<Longrightarrow> map_of (rev xs) = map_of xs"
proof (induction xs)
  case Nil
  then show ?case by simp
next
  case (Cons x xs)
  then have "fst x \<notin> fst ` set (rev xs)" by simp
  then have "map_of (rev xs) (fst x) = None" by (simp add: map_of_eq_None_iff)
  with Cons show ?case
    by (cases x) (auto simp: fun_eq_iff map_add_def split: option.splits)
qed

lemma fold_add_param_values:
  "uc_ExpressionAttributeValues (fold add_param ps cmd) (CHR '':'' # k)
     = (case map_of (rev (defined_params ps)) k of
          None \<Rightarrow> uc_ExpressionAttributeValues cmd (CHR '':'' # k)
        | Some v \<Rightarrow> Some v)"
proof (induction ps arbitrary: cmd)
  case Nil
  then show ?case by (simp add: defined_params_def)
next
  case (Cons p ps)
  have step: "defined_params (p # ps)
      = (case snd p of None \<Rightarrow> [] | Some v \<Rightarrow> [(fst p, v)]) @ defined_params ps"
    by (simp add: defined_params_def)
  have unfold: "uc_ExpressionAttributeValues (fold add_param (p # ps) cmd) (CHR '':'' # k)
      = (case map_of (rev (defined_params ps)) k of
          None \<Rightarrow> uc_ExpressionAttributeValues (add_param p cmd) (CHR '':'' # k)
        | Some v \<Rightarrow> Some v)"
    using Cons.IH [of "add_param p cmd"] by simp
  have first: "uc_ExpressionAttributeValues (add_param p cmd) (CHR '':'' # k)
      = (case snd p of None \<Rightarrow> uc_ExpressionAttributeValues cmd (CHR '':'' # k)
         | Some v \<Rightarrow> if k = fst p then Some v else uc_ExpressionAttributeValues cmd (CHR '':'' # k))"
    by (simp add: add_param_def split: option.splits)
  show ?case
    unfolding unfold first step
    by (simp add: map_add_def split: option.splits)
qed

lemma those_map_Some: "(\<And>x. x \<in> set xs \<Longrightarrow> f x = Some (g x)) \<Longrightarrow> those (map f xs) = Some (map g xs)"
  by (induction xs) auto

lemma fold_set_attr:
  "distinct (map fst sets) \<Longrightarrow>
   fold (\<lambda>nv item. item (fst nv \<mapsto> snd nv)) sets item f
     = (case map_of sets f of None \<Rightarrow> item f | Some v \<Rightarrow> Some v)"
  by (induction sets arbitrary: item) (auto split: option.splits simp: rev_image_eqI)

lemma resolve_updatedAt:
  assumes "distinct (map fst ps)"
  shows "resolve_clause (session_command now w ps) (''#updatedAt'', '':updatedAt'')
     = Some (''updatedAt'', case map_of (defined_params ps) ''updatedAt'' of None \<Rightarrow> AttrN now | Some v \<Rightarrow> v)"
proof -
  have r: "map_of (rev (defined_params ps)) = map_of (defined_params ps)"
    using distinct_defined_params [OF assms] by (rule map_of_rev_distinct)
  have n: "uc_ExpressionAttributeNames (session_command now w ps) ''#updatedAt'' = Some ''updatedAt''"
    by (simp add: session_command_def fold_add_param_names)
  have v: "uc_ExpressionAttributeValues (session_command now w ps) '':updatedAt''
      = (case map_of (defined_params ps) ''updatedAt'' of None \<Rightarrow> Some (AttrN now) | Some v \<Rightarrow> Some v)"
    using fold_add_param_values [of ps _ "''updatedAt''"]
    by (simp add: session_command_def r split: option.splits)
  show ?thesis
    by (simp add: resolve_clause_def n v split: option.splits)
qed

lemma resolve_param:
  assumes "distinct (map fst ps)" "kv \<in> set (defined_params ps)"
  shows "resolve_clause (session_command now w ps) (CHR ''#'' # fst kv, CHR '':'' # fst kv) = Some kv"
proof -
  have r: "map_of (rev (defined_params ps)) = map_of (defined_params ps)"
    using distinct_defined_params [OF assms(1)] by (rule map_of_rev_distinct)
  have m: "map_of (defined_params ps) (fst kv) = Some (snd kv)"
    using assms distinct_defined_params [OF assms(1)] by simp
  have n: "uc_ExpressionAttributeNames (session_command now w ps) (CHR ''#'' # fst kv) = Some (fst kv)"
    using assms(2) by (simp add: session_command_def fold_add_param_names)
  have v: "uc_ExpressionAttributeValues (session_command now w ps) (CHR '':'' # fst kv) = Some (snd kv)"
    by (simp add: session_command_def fold_add_param_values r m split: option.splits)
  show ?thesis
    by (simp add: resolve_clause_def n v)
qed

lemma session_command_sets:
  assumes "distinct (map fst ps)"
  shows "those (map (resolve_clause (session_command now w ps)) (uc_UpdateExpression (session_command now w ps)))
     = Some ((''updatedAt'', case map_of (defined_params ps) ''updatedAt'' of None \<Rightarrow> AttrN now | Some v \<Rightarrow> v)
             # defined_params ps)"
proof -
  have e: "uc_UpdateExpression (session_command now w ps)
      = (''#updatedAt'', '':updatedAt'') # map (\<lambda>kv. (CHR ''#'' # fst kv, CHR '':'' # fst kv)) (defined_params ps)"
    by (simp add: session_command_def fold_add_param_expr)
  have "those (map (resolve_clause (session_command now w ps) \<circ> (\<lambda>kv. (CHR ''#'' # fst kv, CHR '':'' # fst kv))) (defined_params ps))
      = Some (map (\<lambda>kv. kv) (defined_params ps))"
    by (rule those_map_Some) (simp add: resolve_param [OF assms])
  then show ?thesis
    by (simp add: e resolve_updatedAt [OF assms])
qed

text \<open>
  C9. A successful \<^verbatim>\<open>updateSession\<close> leaves the session item with \<open>updatedAt\<close> equal to
  the current time and every explicitly provided, defined field equal to the value passed;
  every other attribute of the item (in particular PK and SK, and createdAt, which the
  parameter type keeps out of \<open>params\<close>), every field passed as undefined, and every other
  item of the table are unchanged.
\<close>

theorem updateSession_frame:
  assumes d: "distinct (map fst params)"
    and ok: "updateSession table now w params = Inr table'"
  shows "\<exists>item'. table' (''sessions'', w) = Some item'
      \<and> item' ''updatedAt'' = Some (AttrN now)
      \<and> (\<forall>f v. (f, Some v) \<in> set params \<longrightarrow> item' f = Some v)
      \<and> (\<forall>f. f \<noteq> ''updatedAt'' \<and> (\<forall>v. (f, Some v) \<notin> set params)
            \<longrightarrow> item' f = item_at table (''sessions'', w) f)
      \<and> item' ''PK'' = item_at table (''sessions'', w) ''PK''
      \<and> item' ''SK'' = item_at table (''sessions'', w) ''SK''
      \<and> ((\<forall>v. (''createdAt'', Some v) \<notin> set params)
            \<longrightarrow> item' ''createdAt'' = item_at table (''sessions'', w) ''createdAt'')
      \<and> (\<forall>k. k \<noteq> (''sessions'', w) \<longrightarrow> table' k = table k)"
proof -
  let ?D = "defined_params params"
  let ?u = "case map_of ?D ''updatedAt'' of None \<Rightarrow> AttrN now | Some v \<Rightarrow> v"
  let ?sets = "(''updatedAt'', ?u) # ?D"
  let ?old = "item_at table (''sessions'', w)"
  have cmd: "updateSession table now w params = ddb_update table (session_command now w params)"
    by (simp add: updateSession_def session_command_def)
  have key: "uc_Key (session_command now w params) = (''sessions'', w)"
    by (simp add: session_command_def fold_add_param_key)
  from ok have good: "distinct (map fst ?sets)" "''PK'' \<notin> set (map fst ?sets)" "''SK'' \<notin> set (map fst ?sets)"
    and t': "table' = table ((''sessions'', w) \<mapsto> fold (\<lambda>nv item. item (fst nv \<mapsto> snd nv)) ?sets ?old)"
    unfolding cmd ddb_update_def session_command_sets [OF d] key
    by (auto split: if_splits)
  define item where "item = fold (\<lambda>nv item. item (fst nv \<mapsto> snd nv)) ?sets ?old"
  have look: "item f = (case map_of ?sets f of None \<Rightarrow> ?old f | Some v \<Rightarrow> Some v)" for f
    unfolding item_def by (rule fold_set_attr [OF good(1)])
  from good(1) have nou: "''updatedAt'' \<notin> fst ` set ?D" by simp
  then have u: "?u = AttrN now"
    by (auto split: option.splits dest: map_of_SomeD intro: rev_image_eqI)
  have dD: "distinct (map fst ?D)" using good(1) by simp
  have a: "item ''updatedAt'' = Some (AttrN now)"
    by (simp add: look u)
  have b: "item f = Some v" if "(f, Some v) \<in> set params" for f v
  proof -
    from that have m: "(f, v) \<in> set ?D" by (simp add: set_defined_params)
    with nou have "f \<noteq> ''updatedAt''" by force
    moreover from m dD have "map_of ?D f = Some v" by simp
    ultimately show ?thesis by (simp add: look)
  qed
  have c: "item f = ?old f" if "f \<noteq> ''updatedAt''" "\<forall>v. (f, Some v) \<notin> set params" for f
  proof -
    from that(2) have "f \<notin> fst ` set ?D" by (auto simp: set_defined_params)
    then have "map_of ?D f = None" by (simp add: map_of_eq_None_iff)
    with that(1) show ?thesis by (simp add: look)
  qed
  have pk: "item ''PK'' = ?old ''PK''"
  proof -
    from good(2) have "map_of ?sets ''PK'' = None" by (simp add: map_of_eq_None_iff)
    then show ?thesis by (simp only: look option.case)
  qed
  have sk: "item ''SK'' = ?old ''SK''"
  proof -
    from good(3) have "map_of ?sets ''SK'' = None" by (simp add: map_of_eq_None_iff)
    then show ?thesis by (simp only: look option.case)
  qed
  show ?thesis
    using a b c pk sk t' unfolding item_def [symmetric] by (intro exI [of _ item]) simp
qed


theorem updateSession_frame_witness:
  "distinct (map fst [(''agentStatus'', Some (AttrS ''working'')), (''title'', None)])
   \<and> (\<exists>table' item'.
        updateSession
          [(''sessions'', ''w1'') \<mapsto>
             [''PK'' \<mapsto> AttrS ''sessions'', ''SK'' \<mapsto> AttrS ''w1'', ''createdAt'' \<mapsto> AttrN 5,
              ''updatedAt'' \<mapsto> AttrN 6, ''agentStatus'' \<mapsto> AttrS ''pending'',
              ''title'' \<mapsto> AttrS ''Fix login'']]
          1700 ''w1'' [(''agentStatus'', Some (AttrS ''working'')), (''title'', None)] = Inr table'
        \<and> table' (''sessions'', ''w1'') = Some item'
        \<and> item' ''updatedAt'' = Some (AttrN 1700)
        \<and> item' ''agentStatus'' = Some (AttrS ''working'')
        \<and> item' ''title'' = Some (AttrS ''Fix login'')
        \<and> item' ''createdAt'' = Some (AttrN 5)
        \<and> item' ''PK'' = Some (AttrS ''sessions'')
        \<and> item' ''SK'' = Some (AttrS ''w1''))"
proof -
  let ?T = "[(''sessions'', ''w1'') \<mapsto>
             [''PK'' \<mapsto> AttrS ''sessions'', ''SK'' \<mapsto> AttrS ''w1'', ''createdAt'' \<mapsto> AttrN 5,
              ''updatedAt'' \<mapsto> AttrN 6, ''agentStatus'' \<mapsto> AttrS ''pending'',
              ''title'' \<mapsto> AttrS ''Fix login'']]"
  let ?P = "[(''agentStatus'', Some (AttrS ''working'')), (''title'', None)]"
  have d: "distinct (map fst ?P)" by simp
  have "\<exists>table'. updateSession ?T 1700 ''w1'' ?P = Inr table'"
    by (simp add: updateSession_def add_param_def ddb_update_def resolve_clause_def)
  then obtain table' where ok: "updateSession ?T 1700 ''w1'' ?P = Inr table'" ..
  have old: "item_at ?T (''sessions'', ''w1'')
      = [''PK'' \<mapsto> AttrS ''sessions'', ''SK'' \<mapsto> AttrS ''w1'', ''createdAt'' \<mapsto> AttrN 5,
         ''updatedAt'' \<mapsto> AttrN 6, ''agentStatus'' \<mapsto> AttrS ''pending'',
         ''title'' \<mapsto> AttrS ''Fix login'']"
    by (simp add: item_at_def)
  from updateSession_frame [OF d ok] obtain item' where
    i: "table' (''sessions'', ''w1'') = Some item'"
      "item' ''updatedAt'' = Some (AttrN 1700)"
      "\<forall>f v. (f, Some v) \<in> set ?P \<longrightarrow> item' f = Some v"
      "\<forall>f. f \<noteq> ''updatedAt'' \<and> (\<forall>v. (f, Some v) \<notin> set ?P)
            \<longrightarrow> item' f = item_at ?T (''sessions'', ''w1'') f"
    by blast
  have s: "item' ''agentStatus'' = Some (AttrS ''working'')" using i(3) by simp
  have t: "item' ''title'' = Some (AttrS ''Fix login'')" using i(4) unfolding old by simp
  have c: "item' ''createdAt'' = Some (AttrN 5)" using i(4) unfolding old by simp
  have p: "item' ''PK'' = Some (AttrS ''sessions'')" using i(4) unfolding old by simp
  have k: "item' ''SK'' = Some (AttrS ''w1'')" using i(4) unfolding old by simp
  show ?thesis using d ok i(1,2) s t c p k by blast
qed

text \<open>
  C8. The title returned is the trimmed reply and nothing shortens it: for a reply of 37
  characters between its outer spaces the title has those 37 characters, more than 15.
\<close>

theorem generateSessionTitle_exceeds_15:
  "generateSessionTitle
     (Inr \<lparr>output_message =
             Some \<lparr>role = Assistant, content = Some [Text '' Refactoring the authentication module '']\<rparr>,
           stopReason = Some EndTurn, usage = None\<rparr>)
     = ''Refactoring the authentication module''
   \<and> length (generateSessionTitle
        (Inr \<lparr>output_message =
                Some \<lparr>role = Assistant, content = Some [Text '' Refactoring the authentication module '']\<rparr>,
              stopReason = Some EndTurn, usage = None\<rparr>)) > 15"
  by (simp add: generateSessionTitle_def trim_def is_whitespace_def)

subsection \<open>Cache markers\<close>

lemma splice_loop_filter:
  "n \<le> length xs \<Longrightarrow> splice_loop p n xs = filter (\<lambda>x. \<not> p x) (take n xs) @ drop n xs"
proof (induction n arbitrary: xs)
  case 0
  then show ?case by simp
next
  case (Suc n)
  then have n: "n < length xs" by simp
  have t: "take (Suc n) xs = take n xs @ [xs ! n]"
    using n by (simp add: take_Suc_conv_app_nth)
  show ?case
  proof (cases "p (xs ! n)")
    case True
    have "splice_loop p (Suc n) xs = splice_loop p n (take n xs @ drop (Suc n) xs)"
      using True by simp
    also have "\<dots> = filter (\<lambda>x. \<not> p x) (take n (take n xs @ drop (Suc n) xs)) @ drop n (take n xs @ drop (Suc n) xs)"
      using n by (intro Suc.IH) simp
    also have "\<dots> = filter (\<lambda>x. \<not> p x) (take n xs) @ drop (Suc n) xs"
      using n by simp
    finally show ?thesis using True by (simp add: t)
  next
    case False
    have "splice_loop p (Suc n) xs = splice_loop p n xs"
      using False by simp
    also have "\<dots> = filter (\<lambda>x. \<not> p x) (take n xs) @ drop n xs"
      using n by (intro Suc.IH) simp
    finally show ?thesis using False n by (simp add: t Cons_nth_drop_Suc)
  qed
qed

lemma remove_cachePoints_filter: "remove_cachePoints p xs = filter (\<lambda>x. \<not> p x) xs"
  by (simp add: remove_cachePoints_def splice_loop_filter)

lemma system_prune_tools [simp]: "system (prune_tools cfg x) = system x"
  by (simp add: prune_tools_def split: option.splits)

lemma system_prune_messages [simp]: "system (prune_messages cfg x) = system x"
  by (simp add: prune_messages_def split: option.splits)

lemma toolConfig_prune_messages [simp]: "toolConfig (prune_messages cfg x) = toolConfig x"
  by (simp add: prune_messages_def split: option.splits)

lemma prune_system_markers:
  "CacheSystem \<notin> set (cacheSupport cfg) \<Longrightarrow> system_cache_markers (prune_system cfg x) = 0"
  by (simp add: system_cache_markers_def prune_system_def remove_cachePoints_filter
      split: option.splits)

lemma prune_tools_markers:
  "CacheTool \<notin> set (cacheSupport cfg) \<Longrightarrow> tool_cache_markers (prune_tools cfg x) = 0"
  by (simp add: tool_cache_markers_def prune_tools_def remove_cachePoints_filter
      split: option.splits)

lemma prune_message_no_cachePoint:
  "content (prune_message m) = Some cs \<Longrightarrow> filter is_cachePoint cs = []"
  by (auto simp: prune_message_def remove_cachePoints_filter split: option.splits)

lemma prune_messages_markers:
  "CacheMessage \<notin> set (cacheSupport cfg) \<Longrightarrow> message_cache_markers (prune_messages cfg x) = 0"
  by (auto simp: message_cache_markers_def prune_messages_def messages_or_empty_def
      dest: prune_message_no_cachePoint split: option.splits)

lemma preProcessInput_fst:
  "fst (preProcessInput cfg n input)
     = prune_messages cfg (prune_tools cfg (prune_system cfg
         (fst (reasoning_step cfg n (before_reasoning cfg n input)))))"
  by (simp add: preProcessInput_def split: prod.splits)

lemma set_map_filter_iff: "y \<in> set (List.map_filter f xs) \<longleftrightarrow> (\<exists>x\<in>set xs. f x = Some y)"
  by (induction xs) (auto simp: map_filter_simps split: option.splits)

lemma system_markers_cong: "system x = system y \<Longrightarrow> system_cache_markers x = system_cache_markers y"
  by (simp add: system_cache_markers_def)

lemma tool_markers_cong: "toolConfig x = toolConfig y \<Longrightarrow> tool_cache_markers x = tool_cache_markers y"
  by (simp add: tool_cache_markers_def)

lemma preProcessInput_system_markers:
  assumes "CacheSystem \<notin> set (cacheSupport cfg)"
  shows "system_cache_markers (fst (preProcessInput cfg n input)) = 0"
proof -
  let ?x = "fst (reasoning_step cfg n (before_reasoning cfg n input))"
  have "system (fst (preProcessInput cfg n input)) = system (prune_system cfg ?x)"
    by (simp add: preProcessInput_fst)
  then have "system_cache_markers (fst (preProcessInput cfg n input))
      = system_cache_markers (prune_system cfg ?x)"
    by (rule system_markers_cong)
  then show ?thesis
    by (simp only: prune_system_markers [OF assms])
qed

lemma preProcessInput_tool_markers:
  assumes "CacheTool \<notin> set (cacheSupport cfg)"
  shows "tool_cache_markers (fst (preProcessInput cfg n input)) = 0"
proof -
  let ?x = "fst (reasoning_step cfg n (before_reasoning cfg n input))"
  have "toolConfig (fst (preProcessInput cfg n input)) = toolConfig (prune_tools cfg (prune_system cfg ?x))"
    by (simp add: preProcessInput_fst)
  then have "tool_cache_markers (fst (preProcessInput cfg n input))
      = tool_cache_markers (prune_tools cfg (prune_system cfg ?x))"
    by (rule tool_markers_cong)
  then show ?thesis
    by (simp only: prune_tools_markers [OF assms])
qed

lemma preProcessInput_message_markers:
  assumes "CacheMessage \<notin> set (cacheSupport cfg)"
  shows "message_cache_markers (fst (preProcessInput cfg n input)) = 0"
  by (simp only: preProcessInput_fst prune_messages_markers [OF assms])

lemma convert_block_no_cache_control:
  "convert_block c = Some b \<Longrightarrow> \<not> block_has_cache_control b"
  by (cases c) (auto split: if_splits option.splits)

lemma convert_message_no_cache_control:
  "filter block_has_cache_control (am_content (convert_message m)) = []"
  by (auto simp: convert_message_def filter_empty_conv set_map_filter_iff
      dest: convert_block_no_cache_control split: option.splits)

lemma anthropic_message_markers:
  "anth_message_cache_markers (anthropicRequestParams input cfg) = 0"
  by (simp add: anth_message_cache_markers_def anthropicRequestParams_def Let_def
      convertToAnthropicFormat_def convert_message_no_cache_control)

lemma convert_system_block_no_cache_control:
  "convert_system_block s = Some b \<Longrightarrow> tb_cache_control b = None"
  by (cases s) (auto simp: convert_system_block_def cache_control_of_def split: if_splits)

lemma map_filter_system_no_cache_control:
  "filter (\<lambda>b. tb_cache_control b \<noteq> None) (List.map_filter convert_system_block bs) = []"
  by (auto simp: filter_empty_conv set_map_filter_iff dest: convert_system_block_no_cache_control)

lemma convert_system_no_cache_control:
  assumes "convert_system sys = Some (SystemBlocks bs)"
  shows "filter (\<lambda>b. tb_cache_control b \<noteq> None) bs = []"
proof -
  from assms obtain xs where
    "(case List.map_filter convert_system_block xs of
        [b] \<Rightarrow> SystemString (tb_text b)
      | _ \<Rightarrow> SystemBlocks (List.map_filter convert_system_block xs)) = SystemBlocks bs"
    by (auto simp: convert_system_def Let_def split: option.splits if_splits)
  then have "bs = List.map_filter convert_system_block xs"
    by (simp split: list.splits)
  then show ?thesis using map_filter_system_no_cache_control [of xs] by simp
qed

lemma anthropic_system_markers:
  "anth_system_cache_markers (anthropicRequestParams input cfg) = 0"
proof -
  have s: "rq_system (anthropicRequestParams input cfg) = Some (SystemBlocks bs)
      \<Longrightarrow> convert_system (system input) = Some (SystemBlocks bs)" for bs
    by (simp add: anthropicRequestParams_def Let_def convertToAnthropicFormat_def
        split: option.splits anth_system.splits list.splits)
  show ?thesis
  proof (cases "rq_system (anthropicRequestParams input cfg)")
    case None
    then show ?thesis by (simp add: anth_system_cache_markers_def)
  next
    case (Some a)
    then show ?thesis
      using convert_system_no_cache_control [OF s]
      by (cases a) (simp_all add: anth_system_cache_markers_def)
  qed
qed

lemma convert_tool_no_cache_control:
  "convert_tool t = Some a \<Longrightarrow> at_cache_control a = None"
  by (cases t) (auto simp: convert_tool_def cache_control_of_def split: if_splits option.splits)

lemma convert_tools_no_cache_control:
  "convert_tools tc = Some ts \<Longrightarrow> filter (\<lambda>t. at_cache_control t \<noteq> None) ts = []"
  by (auto simp: convert_tools_def filter_empty_conv set_map_filter_iff
      dest: convert_tool_no_cache_control split: option.splits if_splits)

lemma anthropic_tool_markers:
  "anth_tool_cache_markers (anthropicRequestParams input cfg) = 0"
  by (auto simp: anth_tool_cache_markers_def anthropicRequestParams_def Let_def
      convertToAnthropicFormat_def dest: convert_tools_no_cache_control
      split: option.splits if_splits)

text \<open>
  C7. For each of the layers system, tool and message that is not in the model's
  \<open>cacheSupport\<close>, the normalised request of the Bedrock path holds no cache point in
  that layer, and the request the Anthropic path sends holds no \<^verbatim>\<open>cache_control\<close> marker
  in that layer.
\<close>

theorem cache_markers_pruned:
  "(CacheSystem \<notin> set (cacheSupport cfg) \<longrightarrow>
      system_cache_markers (fst (preProcessInput cfg n input)) = 0
      \<and> anth_system_cache_markers (anthropicRequestParams input cfg) = 0)
   \<and> (CacheTool \<notin> set (cacheSupport cfg) \<longrightarrow>
      tool_cache_markers (fst (preProcessInput cfg n input)) = 0
      \<and> anth_tool_cache_markers (anthropicRequestParams input cfg) = 0)
   \<and> (CacheMessage \<notin> set (cacheSupport cfg) \<longrightarrow>
      message_cache_markers (fst (preProcessInput cfg n input)) = 0
      \<and> anth_message_cache_markers (anthropicRequestParams input cfg) = 0)"
  by (simp add: preProcessInput_system_markers preProcessInput_tool_markers
      preProcessInput_message_markers anthropic_system_markers anthropic_tool_markers
      anthropic_message_markers)


theorem cache_markers_pruned_witness:
  "CacheSystem \<notin> set [] \<and> CacheTool \<notin> set [] \<and> CacheMessage \<notin> set []
   \<and> system_cache_markers
        \<lparr>messages = Some [\<lparr>role = User, content = Some [Text ''list files'', CachePoint ''default'']\<rparr>],
         system = Some [SysText ''You are an agent'', SysCachePoint ''default''],
         toolConfig = Some \<lparr>tools = Some [ToolSpec \<lparr>ts_name = Some ''ci'', ts_description = None,
                                                   ts_inputSchema_json = None\<rparr>,
                                         ToolCachePoint ''default''],
                             toolChoice = None\<rparr>,
         inferenceConfig = None, additionalModelRequestFields = None\<rparr> = 1
   \<and> system_cache_markers (fst (preProcessInput
        \<lparr>modelId = ''amazon.nova-pro-v1:0'', maxOutputTokens = 8192, reasoningSupport = False,
         interleavedThinkingSupport = False, toolChoiceSupport = [], cacheSupport = []\<rparr> 0
        \<lparr>messages = Some [\<lparr>role = User, content = Some [Text ''list files'', CachePoint ''default'']\<rparr>],
         system = Some [SysText ''You are an agent'', SysCachePoint ''default''],
         toolConfig = Some \<lparr>tools = Some [ToolSpec \<lparr>ts_name = Some ''ci'', ts_description = None,
                                                   ts_inputSchema_json = None\<rparr>,
                                         ToolCachePoint ''default''],
                             toolChoice = None\<rparr>,
         inferenceConfig = None, additionalModelRequestFields = None\<rparr>)) = 0
   \<and> tool_cache_markers (fst (preProcessInput
        \<lparr>modelId = ''amazon.nova-pro-v1:0'', maxOutputTokens = 8192, reasoningSupport = False,
         interleavedThinkingSupport = False, toolChoiceSupport = [], cacheSupport = []\<rparr> 0
        \<lparr>messages = Some [\<lparr>role = User, content = Some [Text ''list files'', CachePoint ''default'']\<rparr>],
         system = Some [SysText ''You are an agent'', SysCachePoint ''default''],
         toolConfig = Some \<lparr>tools = Some [ToolSpec \<lparr>ts_name = Some ''ci'', ts_description = None,
                                                   ts_inputSchema_json = None\<rparr>,
                                         ToolCachePoint ''default''],
                             toolChoice = None\<rparr>,
         inferenceConfig = None, additionalModelRequestFields = None\<rparr>)) = 0
   \<and> message_cache_markers (fst (preProcessInput
        \<lparr>modelId = ''amazon.nova-pro-v1:0'', maxOutputTokens = 8192, reasoningSupport = False,
         interleavedThinkingSupport = False, toolChoiceSupport = [], cacheSupport = []\<rparr> 0
        \<lparr>messages = Some [\<lparr>role = User, content = Some [Text ''list files'', CachePoint ''default'']\<rparr>],
         system = Some [SysText ''You are an agent'', SysCachePoint ''default''],
         toolConfig = Some \<lparr>tools = Some [ToolSpec \<lparr>ts_name = Some ''ci'', ts_description = None,
                                                   ts_inputSchema_json = None\<rparr>,
                                         ToolCachePoint ''default''],
                             toolChoice = None\<rparr>,
         inferenceConfig = None, additionalModelRequestFields = None\<rparr>)) = 0"
proof -
  let ?cfg = "\<lparr>modelId = ''amazon.nova-pro-v1:0'', maxOutputTokens = 8192, reasoningSupport = False,
         interleavedThinkingSupport = False, toolChoiceSupport = [], cacheSupport = []\<rparr>"
  let ?inp = "\<lparr>messages = Some [\<lparr>role = User, content = Some [Text ''list files'', CachePoint ''default'']\<rparr>],
         system = Some [SysText ''You are an agent'', SysCachePoint ''default''],
         toolConfig = Some \<lparr>tools = Some [ToolSpec \<lparr>ts_name = Some ''ci'', ts_description = None,
                                                   ts_inputSchema_json = None\<rparr>,
                                         ToolCachePoint ''default''],
                             toolChoice = None\<rparr>,
         inferenceConfig = None, additionalModelRequestFields = None\<rparr>"
  have before: "system_cache_markers ?inp = 1"
    by (simp add: system_cache_markers_def)
  have none: "cacheSupport ?cfg = []" by simp
  show ?thesis
    using cache_markers_pruned [of ?cfg 0 ?inp] before
    unfolding none by simp
qed

subsection \<open>The ultrathink keyword\<close>

lemma starts_with_prefix: "starts_with p s = prefix p s"
  unfolding starts_with_def
  by (metis append_eq_conv_conj prefix_def)

lemma includes_str_sublist: "includes_str s k = sublist k s"
  by (induction s) (simp_all add: sublist_Cons_right starts_with_prefix)

lemma sublist_across_separator:
  assumes "c \<notin> set k"
  shows "sublist k (xs @ c # ys) \<longleftrightarrow> sublist k xs \<or> sublist k ys"
proof
  assume "sublist k (xs @ c # ys)"
  then consider "sublist k xs" | "sublist k (c # ys)"
    | k1 k2 where "k = k1 @ k2" "suffix k1 xs" "prefix k2 (c # ys)"
    unfolding sublist_append by blast
  then show "sublist k xs \<or> sublist k ys"
  proof cases
    case 1
    then show ?thesis by simp
  next
    case 2
    then have "prefix k (c # ys) \<or> sublist k ys" by (simp add: sublist_Cons_right)
    moreover have "k = []" if "prefix k (c # ys)"
      using that assms by (cases k) auto
    ultimately show ?thesis by auto
  next
    case 3
    have "k2 = []" using 3(1,3) assms by (cases k2) auto
    with 3 show ?thesis by (auto simp: suffix_imp_sublist)
  qed
next
  assume "sublist k xs \<or> sublist k ys"
  then show "sublist k (xs @ c # ys)"
    by (auto simp: sublist_append sublist_Cons_right)
qed

lemma sublist_join:
  assumes "c \<notin> set k" "k \<noteq> []"
  shows "sublist k (join [c] segs) \<longleftrightarrow> (\<exists>s\<in>set segs. sublist k s)"
proof (induction "[c]" segs rule: join.induct)
  case 1
  then show ?case using assms by simp
next
  case (2 x)
  then show ?case by simp
next
  case (3 x y zs)
  then show ?case
    by (simp add: sublist_across_separator [OF assms(1)])
qed

lemma lower_char_space: "lower_char (CHR '' '') = CHR '' ''"
  by (simp add: lower_char_def)

lemma toLowerCase_join:
  "toLowerCase (join '' '' segs) = join '' '' (map toLowerCase segs)"
  by (induction "'' ''" segs rule: join.induct) (simp_all add: toLowerCase_def lower_char_space)

lemma pop_filter_find: "pop (filter P xs) = find P (rev xs)"
  by (induction xs rule: rev_induct) (auto simp: pop_def split: if_splits)

lemma find_Some_has_text:
  "find (\<lambda>m. role m = User \<and> has_text_block m) ms = Some m \<Longrightarrow> content m \<noteq> None"
  by (auto simp: find_Some_iff has_text_block_def split: option.splits)

lemma keyword_in_texts:
  "includes_str (toLowerCase (join '' '' (map (\<lambda>c. case text_of c of None \<Rightarrow> [] | Some t \<Rightarrow> t) cs)))
     ''ultrathink''
   \<longleftrightarrow> list_ex (\<lambda>c. case text_of c of None \<Rightarrow> False
                        | Some t \<Rightarrow> includes_str (toLowerCase t) ''ultrathink'') cs"
proof -
  have k: "CHR '' '' \<notin> set ''ultrathink''" "''ultrathink'' \<noteq> []" by simp_all
  have e: "\<not> sublist ''ultrathink'' []" by simp
  show ?thesis
    unfolding includes_str_sublist toLowerCase_join sublist_join [OF k] list_ex_iff
    by (auto simp: toLowerCase_def e split: option.splits)
qed

lemma shouldUltraThink_spec: "shouldUltraThink input = spec_ultrathink_requested input"
proof (cases "spec_last_user_text_message input")
  case None
  then show ?thesis
    by (simp add: shouldUltraThink_def spec_ultrathink_requested_def
        spec_last_user_text_message_def pop_filter_find)
next
  case (Some m)
  then obtain cs where cs: "content m = Some cs"
    using find_Some_has_text unfolding spec_last_user_text_message_def by blast
  show ?thesis
    using Some cs
    by (simp add: shouldUltraThink_def spec_ultrathink_requested_def
        spec_last_user_text_message_def pop_filter_find ULTRA_THINKING_KEYWORD_def
        keyword_in_texts)
qed

lemma messages_before_reasoning [simp]:
  "messages (before_reasoning cfg n input) = messages input"
  by (simp add: before_reasoning_def remove_unsupported_toolChoice_def Let_def split: option.splits)

lemma toolChoice_before_reasoning [simp]:
  "toolChoice_of (before_reasoning cfg n input) = toolChoice_of (remove_unsupported_toolChoice cfg input)"
  by (simp add: before_reasoning_def Let_def toolChoice_of_def)

lemma additional_prune [simp]:
  "additionalModelRequestFields (prune_messages cfg (prune_tools cfg (prune_system cfg x)))
     = additionalModelRequestFields x"
  by (simp add: prune_messages_def prune_tools_def prune_system_def split: option.splits)

lemma spec_ultrathink_cong:
  "messages x = messages y \<Longrightarrow> spec_ultrathink_requested x = spec_ultrathink_requested y"
  by (simp add: spec_ultrathink_requested_def spec_last_user_text_message_def messages_or_empty_def)

text \<open>
  C5. Whenever normalisation enables reasoning, the budget attached to the request is 2000,
  unless the last user message with a text block has a text block whose lower-cased text
  contains ultrathink; then, and only then, it is min (maxOutputTokens div 2) 31999, and
  that value is also returned as the thinking budget.
\<close>

theorem reasoning_budget:
  assumes "enableReasoning cfg (before_reasoning cfg n input)"
  shows "map_option budget_tokens (additionalModelRequestFields (fst (preProcessInput cfg n input)))
           = Some (if spec_ultrathink_requested input
                   then min (maxOutputTokens cfg div 2) 31999 else 2000)
         \<and> snd (preProcessInput cfg n input)
           = (if spec_ultrathink_requested input
              then Some (min (maxOutputTokens cfg div 2) 31999) else None)"
proof -
  have u: "shouldUltraThink (before_reasoning cfg n input) = spec_ultrathink_requested input"
    unfolding shouldUltraThink_spec by (rule spec_ultrathink_cong) simp
  have step: "reasoning_step cfg n (before_reasoning cfg n input)
      = attach_reasoning cfg n (before_reasoning cfg n input)"
    using assms by (simp add: reasoning_step_def)
  show ?thesis
    by (simp add: preProcessInput_def step attach_reasoning_def Let_def u thinking_budget_def
        split: prod.splits)
qed

subsection \<open>Enabling reasoning\<close>

lemma at_minus_two:
  "at xs (- 2) = (if 2 \<le> length xs then Some (xs ! (length xs - 2)) else None)"
  by (auto simp: at_def Let_def nat_diff_distrib' intro!: arg_cong [of _ _ "(!) xs"])

lemma at_zero: "at xs 0 = (if xs = [] then None else Some (hd xs))"
  by (cases xs) (simp_all add: at_def)

lemma at_minus_one: "at xs (- 1) = (if xs = [] then None else Some (last xs))"
  by (cases xs rule: rev_cases) (simp_all add: at_def Let_def nth_append)

lemma enableReasoning_spec: "enableReasoning cfg x = spec_reasoning_enabled cfg x"
  by (auto simp: enableReasoning_def spec_reasoning_enabled_def spec_tool_use_without_reasoning_def
      second_last_content_def messages_or_empty_def at_minus_two at_zero at_minus_one Let_def
      split: option.splits if_splits)

theorem reasoning_budget_witness:
  "enableReasoning
     \<lparr>modelId = ''anthropic.claude-sonnet-4-5-20250929-v1:0'', maxOutputTokens = 64000,
      reasoningSupport = True, interleavedThinkingSupport = True,
      toolChoiceSupport = [Auto, Any, Tool], cacheSupport = [CacheSystem, CacheTool, CacheMessage]\<rparr>
     (before_reasoning
        \<lparr>modelId = ''anthropic.claude-sonnet-4-5-20250929-v1:0'', maxOutputTokens = 64000,
         reasoningSupport = True, interleavedThinkingSupport = True,
         toolChoiceSupport = [Auto, Any, Tool], cacheSupport = [CacheSystem, CacheTool, CacheMessage]\<rparr> 0
        \<lparr>messages = Some [\<lparr>role = User, content = Some [Text ''Please ULTRATHINK it'']\<rparr>],
         system = None, toolConfig = None, inferenceConfig = None,
         additionalModelRequestFields = None\<rparr>)
   \<and> map_option budget_tokens (additionalModelRequestFields (fst (preProcessInput
        \<lparr>modelId = ''anthropic.claude-sonnet-4-5-20250929-v1:0'', maxOutputTokens = 64000,
         reasoningSupport = True, interleavedThinkingSupport = True,
         toolChoiceSupport = [Auto, Any, Tool], cacheSupport = [CacheSystem, CacheTool, CacheMessage]\<rparr> 0
        \<lparr>messages = Some [\<lparr>role = User, content = Some [Text ''Please ULTRATHINK it'']\<rparr>],
         system = None, toolConfig = None, inferenceConfig = None,
         additionalModelRequestFields = None\<rparr>))) = Some 31999
   \<and> snd (preProcessInput
        \<lparr>modelId = ''anthropic.claude-sonnet-4-5-20250929-v1:0'', maxOutputTokens = 64000,
         reasoningSupport = True, interleavedThinkingSupport = True,
         toolChoiceSupport = [Auto, Any, Tool], cacheSupport = [CacheSystem, CacheTool, CacheMessage]\<rparr> 0
        \<lparr>messages = Some [\<lparr>role = User, content = Some [Text ''Please ULTRATHINK it'']\<rparr>],
         system = None, toolConfig = None, inferenceConfig = None,
         additionalModelRequestFields = None\<rparr>) = Some 31999"
proof -
  let ?cfg = "\<lparr>modelId = ''anthropic.claude-sonnet-4-5-20250929-v1:0'', maxOutputTokens = 64000,
      reasoningSupport = True, interleavedThinkingSupport = True,
      toolChoiceSupport = [Auto, Any, Tool], cacheSupport = [CacheSystem, CacheTool, CacheMessage]\<rparr>"
  let ?inp = "\<lparr>messages = Some [\<lparr>role = User, content = Some [Text ''Please ULTRATHINK it'']\<rparr>],
         system = None, toolConfig = None, inferenceConfig = None,
         additionalModelRequestFields = None\<rparr>"
  have h: "enableReasoning ?cfg (before_reasoning ?cfg 0 ?inp)"
    by (simp add: enableReasoning_def before_reasoning_def remove_unsupported_toolChoice_def
        toolChoice_of_def second_last_content_def at_def with_maxTokens_def)
  have lower: "toLowerCase ''Please ULTRATHINK it'' = ''please ultrathink it''"
    by (simp add: toLowerCase_def lower_char_def)
  have u: "spec_ultrathink_requested ?inp"
    by (simp add: spec_ultrathink_requested_def spec_last_user_text_message_def
        messages_or_empty_def has_text_block_def lower starts_with_def)
  show ?thesis
    using h reasoning_budget [OF h] u by simp
qed

lemma reasoning_blocks_strip: "reasoning_blocks (strip_reasoning x) = []"
  by (cases "messages x")
     (auto simp: reasoning_blocks_def strip_reasoning_def messages_or_empty_def
       filter_empty_conv split: option.splits)

lemma reasoning_blocks_prune_message:
  "filter is_reasoningContent (case content (prune_message m) of None \<Rightarrow> [] | Some cs \<Rightarrow> cs) = []"
  if "filter is_reasoningContent (case content m of None \<Rightarrow> [] | Some cs \<Rightarrow> cs) = []"
  using that
  by (auto simp: prune_message_def remove_cachePoints_filter filter_empty_conv split: option.splits)

lemma messages_prune_tools [simp]: "messages (prune_tools cfg x) = messages x"
  by (simp add: prune_tools_def split: option.splits)

lemma messages_prune_system [simp]: "messages (prune_system cfg x) = messages x"
  by (simp add: prune_system_def split: option.splits)

lemma reasoning_blocks_prune:
  assumes "reasoning_blocks x = []"
  shows "reasoning_blocks (prune_messages cfg (prune_tools cfg (prune_system cfg x))) = []"
proof (cases "messages x")
  case None
  then show ?thesis
    by (simp add: reasoning_blocks_def messages_or_empty_def prune_messages_def)
next
  case (Some ms)
  with assms have "\<forall>m\<in>set ms.
      filter is_reasoningContent (case content m of None \<Rightarrow> [] | Some cs \<Rightarrow> cs) = []"
    by (simp add: reasoning_blocks_def messages_or_empty_def)
  note orig = this
  then have "\<forall>m\<in>set ms.
      filter is_reasoningContent (case content (prune_message m) of None \<Rightarrow> [] | Some cs \<Rightarrow> cs) = []"
    by (simp add: reasoning_blocks_prune_message)
  then show ?thesis
    using Some orig
    by (auto simp: reasoning_blocks_def messages_or_empty_def prune_messages_def)
qed

text \<open>
  The condition on the Bedrock path is the one the specification describes: reasoning is
  enabled exactly when the model supports it, no tool choice is left in the request and
  the second-to-last message is not a tool use without a reasoning block; and when it is
  not enabled, the normalised request has no reasoning block.
\<close>

lemma preProcessInput_reasoning_gate:
  "(enableReasoning cfg (before_reasoning cfg n input)
      \<longleftrightarrow> spec_reasoning_enabled cfg (before_reasoning cfg n input))
   \<and> (\<not> enableReasoning cfg (before_reasoning cfg n input)
      \<longrightarrow> reasoning_blocks (fst (preProcessInput cfg n input)) = [])"
  by (simp add: enableReasoning_spec preProcessInput_fst reasoning_step_def
      reasoning_blocks_prune reasoning_blocks_strip)

text \<open>What the Anthropic converter's condition is, in the same words.\<close>

lemma shouldEnableReasoning_char:
  "shouldEnableReasoning x \<longleftrightarrow>
     toolChoice_of x = None
     \<and> \<not> (let ms = messages_or_empty x
          in 2 \<le> length ms
             \<and> (case content (ms ! (length ms - 2)) of
                  None \<Rightarrow> False
                | Some cs \<Rightarrow> cs \<noteq> [] \<and> is_toolUse (last cs) \<and> is_reasoningContent (hd cs)))"
  by (auto simp: shouldEnableReasoning_def second_last_content_def messages_or_empty_def
      at_minus_two at_zero at_minus_one Let_def split: option.splits if_splits)


text \<open>
  C1. On the Anthropic path the condition is the other way round. For a request whose
  second-to-last message is a tool use with a reasoning block in front, the stated
  condition holds and the Bedrock path enables reasoning, but the Anthropic request has
  no \<^verbatim>\<open>thinking\<close> and still carries the reasoning block as a thinking block. For a
  request whose second-to-last message is a tool use without a reasoning block, the
  stated condition fails and the Bedrock path leaves reasoning off, but the Anthropic
  request has \<^verbatim>\<open>thinking\<close> enabled.
\<close>

theorem anthropic_reasoning_gate_inverted:
  "spec_reasoning_enabled example_reasoning_model example_tool_chain_reasoned
   \<and> enableReasoning example_reasoning_model
        (before_reasoning example_reasoning_model 0 example_tool_chain_reasoned)
   \<and> rq_thinking (anthropicRequestParams example_tool_chain_reasoned example_reasoning_model) = None
   \<and> anth_reasoning_blocks
        (anthropicRequestParams example_tool_chain_reasoned example_reasoning_model)
       = [AThinkingBlock [] ''I should run ls'']
   \<and> \<not> spec_reasoning_enabled example_reasoning_model example_tool_chain_plain
   \<and> \<not> enableReasoning example_reasoning_model
        (before_reasoning example_reasoning_model 0 example_tool_chain_plain)
   \<and> rq_thinking (anthropicRequestParams example_tool_chain_plain example_reasoning_model)
       = Some \<lparr>th_budget_tokens = 2000\<rparr>"
proof -
  have a: "spec_reasoning_enabled example_reasoning_model example_tool_chain_reasoned"
    by (simp add: spec_reasoning_enabled_def spec_tool_use_without_reasoning_def
        example_reasoning_model_def example_tool_chain_reasoned_def toolChoice_of_def
        messages_or_empty_def)
  have b: "enableReasoning example_reasoning_model
        (before_reasoning example_reasoning_model 0 example_tool_chain_reasoned)"
    by (simp add: enableReasoning_spec spec_reasoning_enabled_def
        spec_tool_use_without_reasoning_def before_reasoning_def
        remove_unsupported_toolChoice_def example_reasoning_model_def
        example_tool_chain_reasoned_def toolChoice_of_def messages_or_empty_def)
  have gate1: "\<not> shouldEnableReasoning example_tool_chain_reasoned"
    by (simp add: shouldEnableReasoning_char example_tool_chain_reasoned_def
        toolChoice_of_def messages_or_empty_def)
  have c: "rq_thinking (anthropicRequestParams example_tool_chain_reasoned example_reasoning_model) = None"
    by (simp add: anthropicRequestParams_def convertToAnthropicFormat_def Let_def gate1)
  have d: "anth_reasoning_blocks
        (anthropicRequestParams example_tool_chain_reasoned example_reasoning_model)
       = [AThinkingBlock [] ''I should run ls'']"
    by (simp add: anth_reasoning_blocks_def anthropicRequestParams_def
        convertToAnthropicFormat_def Let_def example_tool_chain_reasoned_def
        messages_or_empty_def convert_message_def map_filter_simps or_default_def)
  have e: "\<not> spec_reasoning_enabled example_reasoning_model example_tool_chain_plain"
    by (simp add: spec_reasoning_enabled_def spec_tool_use_without_reasoning_def
        example_reasoning_model_def example_tool_chain_plain_def toolChoice_of_def
        messages_or_empty_def)
  have f: "\<not> enableReasoning example_reasoning_model
        (before_reasoning example_reasoning_model 0 example_tool_chain_plain)"
    by (simp add: enableReasoning_spec spec_reasoning_enabled_def
        spec_tool_use_without_reasoning_def before_reasoning_def
        remove_unsupported_toolChoice_def example_tool_chain_plain_def messages_or_empty_def)
  have gate2: "shouldEnableReasoning example_tool_chain_plain"
    by (simp add: shouldEnableReasoning_char example_tool_chain_plain_def
        toolChoice_of_def messages_or_empty_def)
  have ultra: "\<not> anthropic_shouldUltraThink example_tool_chain_plain"
    by (simp add: anthropic_shouldUltraThink_def example_tool_chain_plain_def
        messages_or_empty_def has_nonempty_text_block_def pop_def toLowerCase_def
        lower_char_def ULTRA_THINKING_KEYWORD_def starts_with_def)
  have g: "rq_thinking (anthropicRequestParams example_tool_chain_plain example_reasoning_model)
       = Some \<lparr>th_budget_tokens = 2000\<rparr>"
    using gate2 ultra
    by (simp add: anthropicRequestParams_def convertToAnthropicFormat_def Let_def
        thinking_budget_def example_reasoning_model_def)
  show ?thesis using a b c d e f g by blast
qed

subsection \<open>Token attribution\<close>

lemma set_last_tokenCount_items:
  "fst held @ snd held \<noteq> [] \<Longrightarrow>
   fst (set_last_tokenCount n held) @ snd (set_last_tokenCount n held)
     = butlast (fst held @ snd held) @ [(last (fst held @ snd held)) \<lparr>tokenCount := n\<rparr>]"
  by (cases held) (auto simp: set_last_tokenCount_def butlast_append)

lemma message_window_total:
  "snd (message_window removed items) = sum_list (map tokenCount (fst (message_window removed items)))"
  by (simp add: message_window_def middleOutFiltering_def noOpFiltering_def Let_def)

lemma message_window_noOp:
  "sum_list (map tokenCount items) \<le> 190000 \<Longrightarrow> fst (message_window removed items) = items"
  by (simp add: message_window_def noOpFiltering_def)

text \<open>
  C6. After a response, when the last item of the window has role user, its token count
  becomes the billed input tokens of the response (input, cache read and cache write)
  minus the sum of the token counts of the items in the window, and that value is written
  to the store under the item's sort key; every other item keeps its token count, and
  nothing changes when the last item is not a user item. The value can be negative.
\<close>

theorem token_attribution:
  "(let items = fst held @ snd held;
        result = attribute_input_tokens removed res held;
        items' = fst (fst result) @ snd (fst result);
        n = billed_input_tokens res
              - sum_list (map tokenCount (fst (message_window removed items)))
    in (items \<noteq> [] \<and> item_role (last items) = User \<longrightarrow>
          items' = butlast items @ [(last items) \<lparr>tokenCount := n\<rparr>]
          \<and> snd result = [(SK (last items), n)])
       \<and> (items = [] \<or> item_role (last items) \<noteq> User \<longrightarrow> result = (held, []))
       \<and> length items' = length items
       \<and> (\<forall>i. i + 1 < length items \<longrightarrow> items' ! i = items ! i))
   \<and> (\<exists>res0 held0 removed0.
        tokenCount (last (snd (fst (attribute_input_tokens removed0 res0 held0)))) < 0)"
proof -
  let ?items = "fst held @ snd held"
  let ?result = "attribute_input_tokens removed res held"
  let ?items' = "fst (fst ?result) @ snd (fst ?result)"
  let ?n = "billed_input_tokens res
              - sum_list (map tokenCount (fst (message_window removed ?items)))"
  have user: "?items' = butlast ?items @ [(last ?items) \<lparr>tokenCount := ?n\<rparr>]
      \<and> snd ?result = [(SK (last ?items), ?n)]"
    if "?items \<noteq> []" "item_role (last ?items) = User"
    using that set_last_tokenCount_items [of held ?n]
    by (simp add: attribute_input_tokens_def Let_def at_minus_one message_window_total)
  have other: "?result = (held, [])"
    if "?items = [] \<or> item_role (last ?items) \<noteq> User"
    using that
    by (auto simp: attribute_input_tokens_def Let_def at_minus_one)
  have len: "length ?items' = length ?items"
  proof (cases "?items \<noteq> [] \<and> item_role (last ?items) = User")
    case True
    then show ?thesis using user by simp
  next
    case False
    then show ?thesis using other by simp
  qed
  have frame: "?items' ! i = ?items ! i" if "i + 1 < length ?items" for i
  proof (cases "?items \<noteq> [] \<and> item_role (last ?items) = User")
    case True
    then have "?items' = butlast ?items @ [(last ?items) \<lparr>tokenCount := ?n\<rparr>]"
      using user by blast
    moreover have "i < length (butlast ?items)" using that by simp
    ultimately show ?thesis by (simp add: nth_append nth_butlast)
  next
    case False
    then show ?thesis using other by simp
  qed
  have neg: "tokenCount (last (snd (fst (attribute_input_tokens (0, 0)
        \<lparr>output_message = None, stopReason = Some EndTurn,
         usage = Some \<lparr>inputTokens = Some 900, outputTokens = Some 10,
                       cacheReadInputTokens = None, cacheWriteInputTokens = None\<rparr>\<rparr>
        ([\<lparr>SK = ''0001'', item_role = User, tokenCount = 400\<rparr>,
          \<lparr>SK = ''0002'', item_role = Assistant, tokenCount = 600\<rparr>],
         [\<lparr>SK = ''0003'', item_role = User, tokenCount = 0\<rparr>]))))) < 0"
    by (simp add: attribute_input_tokens_def Let_def at_def message_window_def noOpFiltering_def
        billed_input_tokens_def or_zero_def set_last_tokenCount_def)
  show ?thesis
    unfolding Let_def using user other len frame neg by blast
qed

theorem token_attribution_witness:
  "[\<lparr>SK = ''0001'', item_role = User, tokenCount = 400\<rparr>,
    \<lparr>SK = ''0002'', item_role = Assistant, tokenCount = 600\<rparr>]
     @ [\<lparr>SK = ''0003'', item_role = User, tokenCount = 0\<rparr>] \<noteq> []
   \<and> item_role (last ([\<lparr>SK = ''0001'', item_role = User, tokenCount = 400\<rparr>,
                         \<lparr>SK = ''0002'', item_role = Assistant, tokenCount = 600\<rparr>]
                        @ [\<lparr>SK = ''0003'', item_role = User, tokenCount = 0\<rparr>])) = User
   \<and> attribute_input_tokens (0, 0)
        \<lparr>output_message = None, stopReason = Some EndTurn,
         usage = Some \<lparr>inputTokens = Some 900, outputTokens = Some 10,
                       cacheReadInputTokens = Some 300, cacheWriteInputTokens = None\<rparr>\<rparr>
        ([\<lparr>SK = ''0001'', item_role = User, tokenCount = 400\<rparr>,
          \<lparr>SK = ''0002'', item_role = Assistant, tokenCount = 600\<rparr>],
         [\<lparr>SK = ''0003'', item_role = User, tokenCount = 0\<rparr>])
     = (([\<lparr>SK = ''0001'', item_role = User, tokenCount = 400\<rparr>,
          \<lparr>SK = ''0002'', item_role = Assistant, tokenCount = 600\<rparr>],
         [\<lparr>SK = ''0003'', item_role = User, tokenCount = 200\<rparr>]),
        [(''0003'', 200)])"
proof -
  let ?held = "([\<lparr>SK = ''0001'', item_role = User, tokenCount = 400\<rparr>,
          \<lparr>SK = ''0002'', item_role = Assistant, tokenCount = 600\<rparr>],
         [\<lparr>SK = ''0003'', item_role = User, tokenCount = 0\<rparr>])"
  let ?res = "\<lparr>output_message = None, stopReason = Some EndTurn,
         usage = Some \<lparr>inputTokens = Some 900, outputTokens = Some 10,
                       cacheReadInputTokens = Some 300, cacheWriteInputTokens = None\<rparr>\<rparr>"
  have w: "message_window (0, 0) (fst ?held @ snd ?held) = (fst ?held @ snd ?held, 1000)"
    by (simp add: message_window_def noOpFiltering_def)
  have b: "billed_input_tokens ?res = 1200"
    by (simp add: billed_input_tokens_def or_zero_def)
  have same: "fst (fst (attribute_input_tokens (0, 0) ?res ?held)) = fst ?held"
    by (simp add: attribute_input_tokens_def Let_def at_def set_last_tokenCount_def)
  from token_attribution [of ?held "(0, 0)" ?res]
  have "fst (fst (attribute_input_tokens (0, 0) ?res ?held))
          @ snd (fst (attribute_input_tokens (0, 0) ?res ?held))
        = [\<lparr>SK = ''0001'', item_role = User, tokenCount = 400\<rparr>,
           \<lparr>SK = ''0002'', item_role = Assistant, tokenCount = 600\<rparr>,
           \<lparr>SK = ''0003'', item_role = User, tokenCount = 200\<rparr>]
      \<and> snd (attribute_input_tokens (0, 0) ?res ?held) = [(''0003'', 200)]"
    unfolding Let_def w b by simp
  then show ?thesis
    using same by (cases "attribute_input_tokens (0, 0) ?res ?held") auto
qed

subsection \<open>The retry wrapper and the loop\<close>





lemma attempt_max_tokens:
  assumes "\<not> isCancelled st" "\<not> cancel_before (env (attempts st))"
    "maxTokensExceededCount st \<le> 5"
    "outcome (env (attempts st)) = Responded res" "stopReason res = Some MaxTokensStop"
  shows "attempt accounts env st
     = (Thrown MaxTokenExceededError,
        st \<lparr>attempts := Suc (attempts st),
            provider_calls := provider_calls st @ [ConversationCall (maxTokensExceededCount st)],
            isCancelled := cancel_during (env (attempts st)),
            maxTokensExceededCount := Suc (maxTokensExceededCount st)\<rparr>)"
  using assms by (simp add: attempt_def Let_def bedrockConverse_def)





lemma pRetry_max_tokens:
  "attempt accounts env st = (Thrown MaxTokenExceededError, st') \<Longrightarrow>
   pRetry accounts env n st = (RejectedNonError, st')"
  by (cases n) simp_all








subsection \<open>A response that stops with \<^verbatim>\<open>max_tokens\<close>\<close>

text \<open>
  The budget the escalation is meant to raise: the request of the Bedrock path carries
  \<^verbatim>\<open>maxTokens = min(maxOutputTokens, 8192 * 2 ^ count)\<close> when reasoning is off, so a call
  with the count at 1 would ask for twice the tokens of the first call.
\<close>

lemma preProcessInput_maxTokens:
  "\<not> enableReasoning cfg (before_reasoning cfg n input) \<Longrightarrow>
   Option.bind (inferenceConfig (fst (preProcessInput cfg n input))) maxTokens
     = Some (min (maxOutputTokens cfg) (8192 * 2 ^ n))"
  by (simp add: preProcessInput_fst reasoning_step_def strip_reasoning_def before_reasoning_def
      Let_def prune_messages_def prune_tools_def prune_system_def with_maxTokens_def
      adjustedMaxToken_def defaultOutputTokenCount_def split: option.splits)

text \<open>
  Whatever the retries left, the sentinel ends the call of the retry wrapper: the callback
  is not run again.
\<close>

lemma max_tokens_ends_retry:
  assumes "\<not> isCancelled st" "\<not> cancel_before (env (attempts st))"
    "maxTokensExceededCount st \<le> 5"
    "outcome (env (attempts st)) = Responded res" "stopReason res = Some MaxTokensStop"
  shows "pRetry accounts env n st
     = (RejectedNonError,
        st \<lparr>attempts := Suc (attempts st),
            provider_calls := provider_calls st @ [ConversationCall (maxTokensExceededCount st)],
            isCancelled := cancel_during (env (attempts st)),
            maxTokensExceededCount := Suc (maxTokensExceededCount st)\<rparr>)"
  using attempt_max_tokens [of st env res accounts] assms
  by (intro pRetry_max_tokens) simp

text \<open>
  C4. The first response of the turn stops with \<^verbatim>\<open>max_tokens\<close>, and a second call would
  get a complete answer. The count is incremented to 1 and the sentinel is thrown, but the
  sentinel is not an \<^verbatim>\<open>Error\<close>, so the retry wrapper rejects at once: the provider has been
  called once, nothing is called again with a doubled budget, the error leaves the loop,
  nothing is saved, and the guard that aborts above a count of 5 is never reached.
\<close>

theorem max_tokens_not_retried:
  "onMessageReceived [''111''] env_max_tokens_once title_step_ok no_tools 1 fresh_turn
     = Some (LoopThrew NonErrorThrown,
         \<lparr>isCancelled = False, maxTokensExceededCount = 1, currentAccountIndex = 0,
          attempts = 1, provider_calls = [ConversationCall 0], history = [],
          agentStatus = Pending, sessionTitle = None, cancelCallbacks = 0\<rparr>)
   \<and> fst (pRetry [''111''] env_max_tokens_once 100 fresh_turn) = RejectedNonError
   \<and> provider_calls (snd (pRetry [''111''] env_max_tokens_once 100 fresh_turn))
       = [ConversationCall 0]"
proof -
  have p: "pRetry [''111''] env_max_tokens_once 100 fresh_turn
      = (RejectedNonError,
         fresh_turn \<lparr>attempts := Suc 0, provider_calls := [ConversationCall 0],
                     isCancelled := False, maxTokensExceededCount := Suc 0\<rparr>)"
    using max_tokens_ends_retry [of fresh_turn env_max_tokens_once truncated_answer "[''111'']" 100]
    by (simp add: fresh_turn_def env_max_tokens_once_def truncated_answer_def)
  have q: "fresh_turn \<lparr>agentStatus := Working, maxTokensExceededCount := 0\<rparr>
      = fresh_turn \<lparr>agentStatus := Working\<rparr>"
    by (simp add: fresh_turn_def)
  have p': "pRetry [''111''] env_max_tokens_once 100 (fresh_turn \<lparr>agentStatus := Working\<rparr>)
      = (RejectedNonError,
         fresh_turn \<lparr>agentStatus := Working, attempts := Suc 0,
                     provider_calls := [ConversationCall 0],
                     isCancelled := False, maxTokensExceededCount := Suc 0\<rparr>)"
    using max_tokens_ends_retry [of "fresh_turn \<lparr>agentStatus := Working\<rparr>" env_max_tokens_once
        truncated_answer "[''111'']" 100]
    by (simp add: fresh_turn_def env_max_tokens_once_def truncated_answer_def)
  have run: "onMessageReceived [''111''] env_max_tokens_once title_step_ok no_tools 1 fresh_turn
     = Some (LoopThrew NonErrorThrown,
         \<lparr>isCancelled = False, maxTokensExceededCount = 1, currentAccountIndex = 0,
          attempts = 1, provider_calls = [ConversationCall 0], history = [],
          agentStatus = Pending, sessionTitle = None, cancelCallbacks = 0\<rparr>)"
    unfolding onMessageReceived_def agentLoop_def q
    by (simp add: p' del: pRetry.simps) (simp add: fresh_turn_def)
  show ?thesis using run by (simp add: p)
qed

end
